theory Spec2Isabelle
  imports Complex_Main
begin

section \<open>Python values used by the collector\<close>

text \<open>
  The collector \<^verbatim>\<open>mta_data_collector.py\<close> is a thin layer over three libraries: the
  protobuf bindings of GTFS-realtime, \<^verbatim>\<open>datetime\<close> and \<^verbatim>\<open>psycopg2\<close>. This section
  embeds the part of their behaviour the collector depends on.
\<close>

subsection \<open>\<^verbatim>\<open>str\<close> of an integer\<close>

definition digit_char :: "nat \<Rightarrow> char" where
  "digit_char d = char_of (48 + d)"

fun str_nat :: "nat \<Rightarrow> string" where
  "str_nat n = (if n < 10 then [digit_char n] else str_nat (n div 10) @ [digit_char (n mod 10)])"

declare str_nat.simps [simp del]

definition py_str :: "int \<Rightarrow> string" where
  "py_str i = (if i < 0 then CHR ''-'' # str_nat (nat (- i)) else str_nat (nat i))"

text \<open>
  Reading a decimal numeral back (what \<^verbatim>\<open>int(s)\<close> does on the output of \<^verbatim>\<open>str\<close>): the
  reference against which \<open>py_str\<close> is the decimal string of its argument.
\<close>

definition digit_val :: "char \<Rightarrow> nat" where
  "digit_val c = of_char c - 48"

definition decimal_nat :: "string \<Rightarrow> nat" where
  "decimal_nat s = foldl (\<lambda>acc c. 10 * acc + digit_val c) 0 s"

definition decimal_int :: "string \<Rightarrow> int" where
  "decimal_int s =
     (case s of
        [] \<Rightarrow> 0
      | c # cs \<Rightarrow> (if c = CHR ''-'' then - int (decimal_nat cs) else int (decimal_nat s)))"

subsection \<open>Tables and exceptions\<close>

datatype table =
    realtime_feed_logs
  | realtime_trip_updates
  | realtime_stop_time_updates
  | realtime_vehicle_positions
  | realtime_service_alerts

text \<open>
  The exceptions that can surface inside the collector: the out-of-range error of
  \<^verbatim>\<open>utcfromtimestamp\<close> (with the offending timestamp), a \<^verbatim>\<open>psycopg2\<close> error raised by a
  statement on a table, and the error of \<^verbatim>\<open>psycopg2.connect\<close>.
\<close>

datatype exn =
    ValueError int
  | DatabaseError table
  | OperationalError

subsection \<open>\<^verbatim>\<open>datetime.utcfromtimestamp\<close>\<close>

text \<open>
  A naive \<^verbatim>\<open>datetime\<close> holds a date of the proleptic Gregorian calendar and a time of
  day. \<^verbatim>\<open>datetime.utcfromtimestamp(ts)\<close> converts epoch seconds to the UTC date and
  time; it raises (\<^verbatim>\<open>ValueError\<close> or \<^verbatim>\<open>OverflowError\<close>) when the year falls outside
  1..9999, that is when \<open>ts\<close> is outside \<open>-62135596800 .. 253402300799\<close>.
\<close>

record datetime =
  year :: int
  month :: int
  day :: int
  hour :: int
  minute :: int
  second :: int

definition civil_from_days :: "int \<Rightarrow> int \<times> int \<times> int" where
  "civil_from_days z0 =
     (let z = z0 + 719468;
          era = z div 146097;
          doe = z - era * 146097;
          yoe = (doe - doe div 1460 + doe div 36524 - doe div 146096) div 365;
          y = yoe + era * 400;
          doy = doe - (365 * yoe + yoe div 4 - yoe div 100);
          mp = (5 * doy + 2) div 153;
          d = doy - (153 * mp + 2) div 5 + 1;
          m = (if mp < 10 then mp + 3 else mp - 9)
      in (if m \<le> 2 then y + 1 else y, m, d))"

definition utcfromtimestamp :: "int \<Rightarrow> exn + datetime" where
  "utcfromtimestamp ts =
     (if ts < - 62135596800 \<or> 253402300799 < ts then Inl (ValueError ts)
      else (let (y, m, d) = civil_from_days (ts div 86400); s = ts mod 86400
            in Inr \<lparr>year = y, month = m, day = d,
                     hour = s div 3600, minute = (s mod 3600) div 60, second = s mod 60\<rparr>))"

subsection \<open>Decoded GTFS-realtime messages\<close>

text \<open>
  The decoder (\<^verbatim>\<open>FeedMessage.ParseFromString\<close>) is a library; the collector only reads
  the decoded objects. The records below hold the fields the collector reads. A scalar
  field holds the value the accessor returns (an unset scalar reads as its default). A
  sub-message that the collector tests before using it is an \<open>option\<close>: \<open>None\<close> when
  the field is not set in the decoded message, \<open>Some m\<close> when it is. Floats are copied,
  never computed with, and are modelled as reals.
\<close>

record trip_descriptor =
  trip_id :: string
  route_id :: string
  start_date :: string
  schedule_relationship :: int

record stop_time_event =
  ev_delay :: int
  ev_time :: int

record stop_time_update =
  stop_sequence :: int
  stop_id :: string
  arrival :: "stop_time_event option"
  departure :: "stop_time_event option"

record trip_update =
  tu_trip :: trip_descriptor
  tu_stop_time_update :: "stop_time_update list"

record position =
  latitude :: real
  longitude :: real
  bearing :: real
  speed :: real

record vehicle_descriptor =
  vd_id :: string

record vehicle_position =
  vp_trip :: trip_descriptor
  vp_vehicle :: vehicle_descriptor
  vp_position :: "position option"
  vp_stop_id :: string
  current_status :: int
  vp_timestamp :: int

record translation =
  tr_text :: string

record translated_string =
  ts_translation :: "translation list"

record alert =
  cause :: int
  effect :: int
  header_text :: "translated_string option"
  description_text :: "translated_string option"

record feed_entity =
  fe_trip_update :: "trip_update option"
  fe_vehicle :: "vehicle_position option"
  fe_alert :: "alert option"

record feed_header =
  fh_timestamp :: int

record feed_message =
  header :: feed_header
  entity :: "feed_entity list"

text \<open>
  Reading a sub-message field that is not set returns the default instance of its message
  type: every scalar at its default, every repeated field empty. The defaults are those of
  \<^verbatim>\<open>gtfs-realtime.proto\<close>: 0 and the empty string, except \<^verbatim>\<open>current_status\<close>
  (\<^verbatim>\<open>IN_TRANSIT_TO\<close> = 2), \<^verbatim>\<open>cause\<close> (\<^verbatim>\<open>UNKNOWN_CAUSE\<close> = 1) and \<^verbatim>\<open>effect\<close>
  (\<^verbatim>\<open>UNKNOWN_EFFECT\<close> = 8).
\<close>

definition default_trip_descriptor :: trip_descriptor where
  "default_trip_descriptor =
     \<lparr>trip_id = [], route_id = [], start_date = [], schedule_relationship = 0\<rparr>"

definition default_stop_time_event :: stop_time_event where
  "default_stop_time_event = \<lparr>ev_delay = 0, ev_time = 0\<rparr>"

definition default_trip_update :: trip_update where
  "default_trip_update = \<lparr>tu_trip = default_trip_descriptor, tu_stop_time_update = []\<rparr>"

definition default_position :: position where
  "default_position = \<lparr>latitude = 0, longitude = 0, bearing = 0, speed = 0\<rparr>"

definition default_vehicle_position :: vehicle_position where
  "default_vehicle_position =
     \<lparr>vp_trip = default_trip_descriptor, vp_vehicle = \<lparr>vd_id = []\<rparr>, vp_position = None,
      vp_stop_id = [], current_status = 2, vp_timestamp = 0\<rparr>"

definition default_translated_string :: translated_string where
  "default_translated_string = \<lparr>ts_translation = []\<rparr>"

definition default_alert :: alert where
  "default_alert = \<lparr>cause = 1, effect = 8, header_text = None, description_text = None\<rparr>"

definition getattr :: "'a \<Rightarrow> 'a option \<Rightarrow> 'a" where
  "getattr dflt field = (case field of None \<Rightarrow> dflt | Some m \<Rightarrow> m)"

text \<open>
  The truth value Python gives an object in \<^verbatim>\<open>if x:\<close>, \<^verbatim>\<open>x and y\<close> or \<^verbatim>\<open>any(...)\<close>:
  an integer is true when it is not 0, a repeated field (it has \<^verbatim>\<open>__len__\<close>) when it is
  not empty. A protobuf message class defines neither \<^verbatim>\<open>__bool__\<close> nor \<^verbatim>\<open>__len__\<close>, so a
  message object is always true, also the default instance read from a field that is not
  set; presence is what \<^verbatim>\<open>HasField\<close> tests, which the collector never calls.
\<close>

definition truth_message :: "'a \<Rightarrow> bool" where
  "truth_message m = True"

definition truth_int :: "int \<Rightarrow> bool" where
  "truth_int i = (i \<noteq> 0)"

definition truth_repeated :: "'a list \<Rightarrow> bool" where
  "truth_repeated xs = (xs \<noteq> [])"

subsection \<open>The database, the network and the log\<close>

text \<open>
  Rows are the tuples the collector passes to \<^verbatim>\<open>execute_values\<close>, column by column.
\<close>

type_synonym trip_update_row = "int \<times> string \<times> string \<times> string \<times> string"

type_synonym stop_time_update_row =
  "int \<times> string \<times> string \<times> int \<times> datetime option \<times> datetime option \<times> int option"

type_synonym vehicle_position_row =
  "int \<times> string \<times> string \<times> string \<times> string \<times> string \<times>
   real option \<times> real option \<times> real option \<times> real option \<times> datetime option"

type_synonym service_alert_row = "int \<times> string \<times> string \<times> string \<times> string"

text \<open>
  A statement sent to the database. \<open>InsertFeedLog\<close> carries the \<^verbatim>\<open>feed_log_id\<close> the
  database generates for the row (what \<^verbatim>\<open>RETURNING feed_log_id\<close> yields), then the
  parameters \<^verbatim>\<open>feed_url, feed_name, feed_timestamp, success, error_message\<close>. The other
  statements are the \<^verbatim>\<open>execute_values\<close> batches.
\<close>

datatype statement =
    InsertFeedLog int string string "datetime option" bool "string option"
  | InsertTripUpdates "trip_update_row list"
  | InsertStopTimeUpdates "stop_time_update_row list"
  | InsertVehiclePositions "vehicle_position_row list"
  | InsertServiceAlerts "service_alert_row list"

fun table_of :: "statement \<Rightarrow> table" where
  "table_of (InsertFeedLog i u n t s e) = realtime_feed_logs"
| "table_of (InsertTripUpdates rs) = realtime_trip_updates"
| "table_of (InsertStopTimeUpdates rs) = realtime_stop_time_updates"
| "table_of (InsertVehiclePositions rs) = realtime_vehicle_positions"
| "table_of (InsertServiceAlerts rs) = realtime_service_alerts"

text \<open>
  What happens on the connection, in order: a statement executed, a statement that raised,
  \<^verbatim>\<open>conn.commit()\<close>, \<^verbatim>\<open>conn.close()\<close>.
\<close>

datatype db_event = Execute statement | Failed statement | Commit | Close

datatype log_entry =
    Info_fetching_feed string string
  | Error_fetching_feed string string
  | Info_inserted nat table
  | Error_unexpected exn
  | Info_sleeping int

record world =
  trace :: "db_event list"
  next_feed_log_id :: int
  log :: "log_entry list"

datatype decode_result = DecodeError string | Message feed_message

datatype http_result = GetRaises string | StatusRaises string | Content decode_result

text \<open>
  The environment of one poll cycle: what \<^verbatim>\<open>requests.get\<close>, \<^verbatim>\<open>raise_for_status\<close> and
  \<^verbatim>\<open>ParseFromString\<close> do for a URL (each exception with its text), whether
  \<^verbatim>\<open>psycopg2.connect\<close> succeeds, and the tables on which a statement raises.
\<close>

record env =
  http_get :: "string \<Rightarrow> http_result"
  db_connects :: bool
  db_rejects :: "table \<Rightarrow> bool"

type_synonym 'a result = "(exn + 'a) \<times> world"

definition logging :: "log_entry \<Rightarrow> world \<Rightarrow> world" where
  "logging entry w = w\<lparr>log := log w @ [entry]\<rparr>"

definition execute :: "env \<Rightarrow> statement \<Rightarrow> world \<Rightarrow> unit result" where
  "execute en st w =
     (if db_rejects en (table_of st)
      then (Inl (DatabaseError (table_of st)), w\<lparr>trace := trace w @ [Failed st]\<rparr>)
      else (Inr (), w\<lparr>trace := trace w @ [Execute st]\<rparr>))"

definition commit :: "world \<Rightarrow> world" where
  "commit w = w\<lparr>trace := trace w @ [Commit]\<rparr>"

definition close :: "world \<Rightarrow> world" where
  "close w = w\<lparr>trace := trace w @ [Close]\<rparr>"

section \<open>The collector\<close>

definition GTFS_RT_FEEDS :: "(string \<times> string) list" where
  "GTFS_RT_FEEDS =
    [(''Subway-ACE'', ''https://api-endpoint.mta.info/Dataservice/mtagtfsfeeds/nyct%2Fgtfs-ace''),
     (''Subway-BDFM'', ''https://api-endpoint.mta.info/Dataservice/mtagtfsfeeds/nyct%2Fgtfs-bdfm''),
     (''Subway-G'', ''https://api-endpoint.mta.info/Dataservice/mtagtfsfeeds/nyct%2Fgtfs-g''),
     (''Subway-JZ'', ''https://api-endpoint.mta.info/Dataservice/mtagtfsfeeds/nyct%2Fgtfs-jz''),
     (''Subway-NQRW'', ''https://api-endpoint.mta.info/Dataservice/mtagtfsfeeds/nyct%2Fgtfs-nqrw''),
     (''Subway-L'', ''https://api-endpoint.mta.info/Dataservice/mtagtfsfeeds/nyct%2Fgtfs-l''),
     (''Subway-1234567S'', ''https://api-endpoint.mta.info/Dataservice/mtagtfsfeeds/nyct%2Fgtfs''),
     (''Subway-SIR'', ''https://api-endpoint.mta.info/Dataservice/mtagtfsfeeds/nyct%2Fgtfs-si''),
     (''LIRR'', ''https://api-endpoint.mta.info/Dataservice/mtagtfsfeeds/lirr%2Fgtfs-lirr''),
     (''MNR'', ''https://api-endpoint.mta.info/Dataservice/mtagtfsfeeds/mnr%2Fgtfs-mnr''),
     (''All-Alerts'', ''https://api-endpoint.mta.info/Dataservice/mtagtfsfeeds/camsys%2Fall-alerts''),
     (''Subway-Alerts'', ''https://api-endpoint.mta.info/Dataservice/mtagtfsfeeds/camsys%2Fsubway-alerts''),
     (''Bus-Alerts'', ''https://api-endpoint.mta.info/Dataservice/mtagtfsfeeds/camsys%2Fbus-alerts''),
     (''LIRR-Alerts'', ''https://api-endpoint.mta.info/Dataservice/mtagtfsfeeds/camsys%2Flirr-alerts''),
     (''MNR-Alerts'', ''https://api-endpoint.mta.info/Dataservice/mtagtfsfeeds/camsys%2Fmnr-alerts'')]"

definition POLL_INTERVAL :: int where
  "POLL_INTERVAL = 120"

subsection \<open>Helper functions\<close>

definition ts_to_datetime :: "int \<Rightarrow> exn + datetime option" where
  "ts_to_datetime ts =
     (if truth_int ts
      then (case utcfromtimestamp ts of Inl x \<Rightarrow> Inl x | Inr d \<Rightarrow> Inr (Some d))
      else Inr None)"

text \<open>
  \<^verbatim>\<open>translation[0]\<close> is read only where the repeated field is not empty, so \<open>hd\<close> is
  never applied to the empty list.
\<close>

definition translate :: "translated_string \<Rightarrow> string" where
  "translate translated_string_msg =
     (if truth_message translated_string_msg \<and> truth_repeated (ts_translation translated_string_msg)
      then tr_text (hd (ts_translation translated_string_msg))
      else [])"

subsection \<open>Fetching and decoding\<close>

definition fetch_gtfs_rt_feed :: "env \<Rightarrow> string \<Rightarrow> world \<Rightarrow> feed_message option \<times> world" where
  "fetch_gtfs_rt_feed en feed_url w =
     (case http_get en feed_url of
        GetRaises e \<Rightarrow> (None, logging (Error_fetching_feed feed_url e) w)
      | StatusRaises e \<Rightarrow> (None, logging (Error_fetching_feed feed_url e) w)
      | Content c \<Rightarrow>
          (case c of
             DecodeError e \<Rightarrow> (None, logging (Error_fetching_feed feed_url e) w)
           | Message feed_message \<Rightarrow> (Some feed_message, w)))"

subsection \<open>Feed logging\<close>

definition log_feed_fetch ::
  "env \<Rightarrow> string \<Rightarrow> string \<Rightarrow> datetime option \<Rightarrow> bool \<Rightarrow> string option \<Rightarrow> world \<Rightarrow> int result"
where
  "log_feed_fetch en feed_name feed_url feed_timestamp success error_message w =
     (let feed_log_id = next_feed_log_id w in
      case execute en
             (InsertFeedLog feed_log_id feed_url feed_name feed_timestamp success error_message) w of
        (Inl x, w') \<Rightarrow> (Inl x, w')
      | (Inr u, w') \<Rightarrow> (Inr feed_log_id, commit (w'\<lparr>next_feed_log_id := feed_log_id + 1\<rparr>)))"

text \<open>
  The body of each \<^verbatim>\<open>if ..._data:\<close> block: \<^verbatim>\<open>execute_values\<close>, \<^verbatim>\<open>conn.commit()\<close> and the
  \<^verbatim>\<open>Inserted n ...\<close> log line.
\<close>

definition execute_values :: "env \<Rightarrow> statement \<Rightarrow> nat \<Rightarrow> world \<Rightarrow> unit result" where
  "execute_values en st n w =
     (case execute en st w of
        (Inl x, w') \<Rightarrow> (Inl x, w')
      | (Inr u, w') \<Rightarrow> (Inr (), logging (Info_inserted n (table_of st)) (commit w')))"

subsection \<open>Trip updates\<close>

text \<open>The attribute reads \<^verbatim>\<open>entity.trip_update\<close>, \<^verbatim>\<open>stu.arrival\<close> and so on.\<close>

definition entity_trip_update :: "feed_entity \<Rightarrow> trip_update" where
  "entity_trip_update e = getattr default_trip_update (fe_trip_update e)"

definition entity_vehicle :: "feed_entity \<Rightarrow> vehicle_position" where
  "entity_vehicle e = getattr default_vehicle_position (fe_vehicle e)"

definition entity_alert :: "feed_entity \<Rightarrow> alert" where
  "entity_alert e = getattr default_alert (fe_alert e)"

definition stu_arrival :: "stop_time_update \<Rightarrow> stop_time_event" where
  "stu_arrival stu = getattr default_stop_time_event (arrival stu)"

definition stu_departure :: "stop_time_update \<Rightarrow> stop_time_event" where
  "stu_departure stu = getattr default_stop_time_event (departure stu)"

definition v_position :: "vehicle_position \<Rightarrow> position" where
  "v_position v = getattr default_position (vp_position v)"

definition a_header_text :: "alert \<Rightarrow> translated_string" where
  "a_header_text a = getattr default_translated_string (header_text a)"

definition a_description_text :: "alert \<Rightarrow> translated_string" where
  "a_description_text a = getattr default_translated_string (description_text a)"

text \<open>The body of the loop over \<^verbatim>\<open>tu.stop_time_update\<close>: one row, or the exception.\<close>

definition stop_time_update_row ::
  "int \<Rightarrow> string \<Rightarrow> stop_time_update \<Rightarrow> exn + stop_time_update_row"
where
  "stop_time_update_row feed_log_id trip_id' stu =
     (case (if truth_message (stu_arrival stu) \<and> truth_int (ev_time (stu_arrival stu))
            then ts_to_datetime (ev_time (stu_arrival stu)) else Inr None) of
        Inl x \<Rightarrow> Inl x
      | Inr arrival_time \<Rightarrow>
          (case (if truth_message (stu_departure stu) \<and> truth_int (ev_time (stu_departure stu))
                 then ts_to_datetime (ev_time (stu_departure stu)) else Inr None) of
             Inl x \<Rightarrow> Inl x
           | Inr departure_time \<Rightarrow>
               (let delay = (if truth_message (stu_arrival stu) \<and> truth_int (ev_delay (stu_arrival stu))
                             then Some (ev_delay (stu_arrival stu)) else None)
                in Inr (feed_log_id, trip_id', stop_id stu, stop_sequence stu,
                        arrival_time, departure_time, delay))))"

fun stop_time_updates_data ::
  "int \<Rightarrow> string \<Rightarrow> stop_time_update list \<Rightarrow> exn + stop_time_update_row list"
where
  "stop_time_updates_data feed_log_id trip_id' [] = Inr []"
| "stop_time_updates_data feed_log_id trip_id' (stu # stus) =
     (case stop_time_update_row feed_log_id trip_id' stu of
        Inl x \<Rightarrow> Inl x
      | Inr r \<Rightarrow>
          (case stop_time_updates_data feed_log_id trip_id' stus of
             Inl x \<Rightarrow> Inl x
           | Inr rs \<Rightarrow> Inr (r # rs)))"

definition trip_update_row :: "int \<Rightarrow> trip_update \<Rightarrow> trip_update_row" where
  "trip_update_row feed_log_id tu =
     (feed_log_id, trip_id (tu_trip tu), route_id (tu_trip tu), start_date (tu_trip tu),
      py_str (schedule_relationship (tu_trip tu)))"

text \<open>
  The loop over \<^verbatim>\<open>feed_message.entity\<close> of \<^verbatim>\<open>process_trip_updates\<close>: the two lists
  \<^verbatim>\<open>trip_updates_data\<close> and \<^verbatim>\<open>stop_time_updates_data\<close>, in the order of the appends.
\<close>

fun trip_updates_data ::
  "int \<Rightarrow> feed_entity list \<Rightarrow> exn + trip_update_row list \<times> stop_time_update_row list"
where
  "trip_updates_data feed_log_id [] = Inr ([], [])"
| "trip_updates_data feed_log_id (e # es) =
     (if truth_message (entity_trip_update e)
      then (let tu = entity_trip_update e in
            case stop_time_updates_data feed_log_id (trip_id (tu_trip tu)) (tu_stop_time_update tu) of
              Inl x \<Rightarrow> Inl x
            | Inr srows \<Rightarrow>
                (case trip_updates_data feed_log_id es of
                   Inl x \<Rightarrow> Inl x
                 | Inr (ts, ss) \<Rightarrow> Inr (trip_update_row feed_log_id tu # ts, srows @ ss)))
      else trip_updates_data feed_log_id es)"

definition process_trip_updates :: "env \<Rightarrow> int \<Rightarrow> feed_message \<Rightarrow> world \<Rightarrow> unit result" where
  "process_trip_updates en feed_log_id feed_message w =
     (case trip_updates_data feed_log_id (entity feed_message) of
        Inl x \<Rightarrow> (Inl x, w)
      | Inr (tdata, sdata) \<Rightarrow>
          (case (if tdata \<noteq> []
                 then execute_values en (InsertTripUpdates tdata) (length tdata) w
                 else (Inr (), w)) of
             (Inl x, w1) \<Rightarrow> (Inl x, w1)
           | (Inr u, w1) \<Rightarrow>
               (if sdata \<noteq> []
                then execute_values en (InsertStopTimeUpdates sdata) (length sdata) w1
                else (Inr (), w1))))"

subsection \<open>Vehicle positions\<close>

definition vehicle_position_row :: "int \<Rightarrow> vehicle_position \<Rightarrow> exn + vehicle_position_row" where
  "vehicle_position_row feed_log_id v =
     (let lat = (if truth_message (v_position v) then Some (latitude (v_position v)) else None);
          lon = (if truth_message (v_position v) then Some (longitude (v_position v)) else None);
          bearing' = (if truth_message (v_position v) then Some (bearing (v_position v)) else None);
          speed' = (if truth_message (v_position v) then Some (speed (v_position v)) else None)
      in case (if truth_int (vp_timestamp v) then ts_to_datetime (vp_timestamp v) else Inr None) of
           Inl x \<Rightarrow> Inl x
         | Inr pos_ts \<Rightarrow>
             Inr (feed_log_id, vd_id (vp_vehicle v), trip_id (vp_trip v), route_id (vp_trip v),
                  vp_stop_id v, py_str (current_status v), lat, lon, bearing', speed', pos_ts))"

fun vehicle_positions_data :: "int \<Rightarrow> feed_entity list \<Rightarrow> exn + vehicle_position_row list" where
  "vehicle_positions_data feed_log_id [] = Inr []"
| "vehicle_positions_data feed_log_id (e # es) =
     (if truth_message (entity_vehicle e)
      then (case vehicle_position_row feed_log_id (entity_vehicle e) of
              Inl x \<Rightarrow> Inl x
            | Inr r \<Rightarrow>
                (case vehicle_positions_data feed_log_id es of
                   Inl x \<Rightarrow> Inl x
                 | Inr rs \<Rightarrow> Inr (r # rs)))
      else vehicle_positions_data feed_log_id es)"

definition process_vehicle_positions :: "env \<Rightarrow> int \<Rightarrow> feed_message \<Rightarrow> world \<Rightarrow> unit result" where
  "process_vehicle_positions en feed_log_id feed_message w =
     (case vehicle_positions_data feed_log_id (entity feed_message) of
        Inl x \<Rightarrow> (Inl x, w)
      | Inr vdata \<Rightarrow>
          (if vdata \<noteq> []
           then execute_values en (InsertVehiclePositions vdata) (length vdata) w
           else (Inr (), w)))"

subsection \<open>Service alerts\<close>

definition service_alert_row :: "int \<Rightarrow> alert \<Rightarrow> service_alert_row" where
  "service_alert_row feed_log_id a =
     (feed_log_id, translate (a_header_text a), translate (a_description_text a),
      py_str (cause a), py_str (effect a))"

fun alerts_data :: "int \<Rightarrow> feed_entity list \<Rightarrow> service_alert_row list" where
  "alerts_data feed_log_id [] = []"
| "alerts_data feed_log_id (e # es) =
     (if truth_message (entity_alert e)
      then service_alert_row feed_log_id (entity_alert e) # alerts_data feed_log_id es
      else alerts_data feed_log_id es)"

definition process_service_alerts :: "env \<Rightarrow> int \<Rightarrow> feed_message \<Rightarrow> world \<Rightarrow> unit result" where
  "process_service_alerts en feed_log_id feed_message w =
     (let adata = alerts_data feed_log_id (entity feed_message) in
      if adata \<noteq> []
      then execute_values en (InsertServiceAlerts adata) (length adata) w
      else (Inr (), w))"

subsection \<open>The main loop\<close>

text \<open>
  \<open>process_feed_message\<close> is the part of the loop body of \<^verbatim>\<open>main\<close> after the successful
  \<^verbatim>\<open>log_feed_fetch\<close>: the three \<^verbatim>\<open>any(...)\<close> tests and the three guarded calls.
\<close>

definition process_feed_message :: "env \<Rightarrow> int \<Rightarrow> feed_message \<Rightarrow> world \<Rightarrow> unit result" where
  "process_feed_message en feed_log_id feed_message w =
     (let has_trip_updates = list_ex (\<lambda>e. truth_message (entity_trip_update e)) (entity feed_message);
          has_vehicle_positions = list_ex (\<lambda>e. truth_message (entity_vehicle e)) (entity feed_message);
          has_alerts = list_ex (\<lambda>e. truth_message (entity_alert e)) (entity feed_message)
      in case (if has_trip_updates then process_trip_updates en feed_log_id feed_message w
               else (Inr (), w)) of
           (Inl x, w1) \<Rightarrow> (Inl x, w1)
         | (Inr u, w1) \<Rightarrow>
             (case (if has_vehicle_positions
                    then process_vehicle_positions en feed_log_id feed_message w1
                    else (Inr (), w1)) of
                (Inl x, w2) \<Rightarrow> (Inl x, w2)
              | (Inr u, w2) \<Rightarrow>
                  (if has_alerts then process_service_alerts en feed_log_id feed_message w2
                   else (Inr (), w2))))"

text \<open>
  The body of the loop over \<^verbatim>\<open>GTFS_RT_FEEDS.items()\<close>, for one feed. \<^verbatim>\<open>if not feed_message:\<close>
  holds exactly when \<^verbatim>\<open>fetch_gtfs_rt_feed\<close> returned \<^verbatim>\<open>None\<close>, a message object being true.
\<close>

definition poll_feed :: "env \<Rightarrow> string \<times> string \<Rightarrow> world \<Rightarrow> unit result" where
  "poll_feed en feed w =
     (let feed_name = fst feed; feed_url = snd feed;
          (fetched, w1) = fetch_gtfs_rt_feed en feed_url (logging (Info_fetching_feed feed_name feed_url) w)
      in case fetched of
           None \<Rightarrow>
             (case log_feed_fetch en feed_name feed_url None False
                     (Some ''Failed to fetch or parse protobuf'') w1 of
                (Inl x, w2) \<Rightarrow> (Inl x, w2)
              | (Inr i, w2) \<Rightarrow> (Inr (), w2))
         | Some feed_message \<Rightarrow>
             (case (if truth_int (fh_timestamp (header feed_message))
                    then ts_to_datetime (fh_timestamp (header feed_message)) else Inr None) of
                Inl x \<Rightarrow> (Inl x, w1)
              | Inr feed_timestamp \<Rightarrow>
                  (case log_feed_fetch en feed_name feed_url feed_timestamp True None w1 of
                     (Inl x, w2) \<Rightarrow> (Inl x, w2)
                   | (Inr feed_log_id, w2) \<Rightarrow> process_feed_message en feed_log_id feed_message w2)))"

text \<open>The \<^verbatim>\<open>for\<close> loop: an exception leaves it, \<^verbatim>\<open>continue\<close> and a normal end go on.\<close>

fun poll_feeds :: "env \<Rightarrow> (string \<times> string) list \<Rightarrow> world \<Rightarrow> unit result" where
  "poll_feeds en [] w = (Inr (), w)"
| "poll_feeds en (feed # feeds) w =
     (case poll_feed en feed w of
        (Inl x, w') \<Rightarrow> (Inl x, w')
      | (Inr u, w') \<Rightarrow> poll_feeds en feeds w')"

text \<open>
  One iteration of \<^verbatim>\<open>while True\<close> over a catalogue of feeds: \<^verbatim>\<open>try\<close>, \<^verbatim>\<open>except Exception\<close>,
  \<^verbatim>\<open>finally\<close>, then the log line before \<^verbatim>\<open>time.sleep\<close>. When \<^verbatim>\<open>get_db_connection\<close> raises,
  \<^verbatim>\<open>conn\<close> is still \<^verbatim>\<open>None\<close> and nothing is closed.
\<close>

definition poll_cycle :: "env \<Rightarrow> (string \<times> string) list \<Rightarrow> world \<Rightarrow> world" where
  "poll_cycle en feeds w =
     logging (Info_sleeping POLL_INTERVAL)
       (if db_connects en
        then (case poll_feeds en feeds w of
                (Inl x, w') \<Rightarrow> close (logging (Error_unexpected x) w')
              | (Inr u, w') \<Rightarrow> close w')
        else logging (Error_unexpected OperationalError) w)"

text \<open>
  \<^verbatim>\<open>main\<close> never returns; \<open>main\<close> runs its first iterations, one per environment of
  the list.
\<close>

fun main :: "env list \<Rightarrow> world \<Rightarrow> world" where
  "main [] w = w"
| "main (en # ens) w = main ens (poll_cycle en GTFS_RT_FEEDS w)"

section \<open>Reading the rows and the trace\<close>

text \<open>The columns of the rows, by the names of the \<^verbatim>\<open>INSERT\<close> statements.\<close>

fun tu_schedule_relationship :: "trip_update_row \<Rightarrow> string" where
  "tu_schedule_relationship (feed_log_id, trip, route, start, rel) = rel"

fun stu_arrival_time :: "stop_time_update_row \<Rightarrow> datetime option" where
  "stu_arrival_time (feed_log_id, trip, stop, sq, arr, dep, dl) = arr"

fun stu_departure_time :: "stop_time_update_row \<Rightarrow> datetime option" where
  "stu_departure_time (feed_log_id, trip, stop, sq, arr, dep, dl) = dep"

fun stu_delay_seconds :: "stop_time_update_row \<Rightarrow> int option" where
  "stu_delay_seconds (feed_log_id, trip, stop, sq, arr, dep, dl) = dl"

fun vp_current_status :: "vehicle_position_row \<Rightarrow> string" where
  "vp_current_status (feed_log_id, vid, trip, route, stop, status, rest) = status"

fun vp_lat :: "vehicle_position_row \<Rightarrow> real option" where
  "vp_lat (feed_log_id, vid, trip, route, stop, status, lat, lon, b, sp, ts) = lat"

fun vp_lon :: "vehicle_position_row \<Rightarrow> real option" where
  "vp_lon (feed_log_id, vid, trip, route, stop, status, lat, lon, b, sp, ts) = lon"

fun vp_bearing :: "vehicle_position_row \<Rightarrow> real option" where
  "vp_bearing (feed_log_id, vid, trip, route, stop, status, lat, lon, b, sp, ts) = b"

fun vp_speed :: "vehicle_position_row \<Rightarrow> real option" where
  "vp_speed (feed_log_id, vid, trip, route, stop, status, lat, lon, b, sp, ts) = sp"

fun vp_position_timestamp :: "vehicle_position_row \<Rightarrow> datetime option" where
  "vp_position_timestamp (feed_log_id, vid, trip, route, stop, status, lat, lon, b, sp, ts) = ts"

fun sa_header_text :: "service_alert_row \<Rightarrow> string" where
  "sa_header_text (feed_log_id, h, d, c, e) = h"

fun sa_description_text :: "service_alert_row \<Rightarrow> string" where
  "sa_description_text (feed_log_id, h, d, c, e) = d"

fun sa_cause :: "service_alert_row \<Rightarrow> string" where
  "sa_cause (feed_log_id, h, d, c, e) = c"

fun sa_effect :: "service_alert_row \<Rightarrow> string" where
  "sa_effect (feed_log_id, h, d, c, e) = e"

text \<open>The timestamps \<^verbatim>\<open>utcfromtimestamp\<close> converts without raising.\<close>

definition in_datetime_range :: "int \<Rightarrow> bool" where
  "in_datetime_range ts = (- 62135596800 \<le> ts \<and> ts \<le> 253402300799)"

text \<open>
  The trace is read with these: the \<^verbatim>\<open>feed_log_id\<close>s the rows of a statement reference,
  the events an entity batch of attempt \<open>fid\<close> may leave (a statement on an entity table
  whose rows all reference \<open>fid\<close>, or a commit), and how the result of an operation goes
  with the events it left: no failed statement when it returns, and when it raises either
  a conversion error with no failed statement or the error of the failed statement that
  ends the events.
\<close>

fun stmt_refs :: "statement \<Rightarrow> int list" where
  "stmt_refs (InsertFeedLog i u n t s e) = []"
| "stmt_refs (InsertTripUpdates rs) = map fst rs"
| "stmt_refs (InsertStopTimeUpdates rs) = map fst rs"
| "stmt_refs (InsertVehiclePositions rs) = map fst rs"
| "stmt_refs (InsertServiceAlerts rs) = map fst rs"

fun entity_event :: "int \<Rightarrow> db_event \<Rightarrow> bool" where
  "entity_event fid (Execute st) =
     (table_of st \<noteq> realtime_feed_logs \<and> list_all (\<lambda>i. i = fid) (stmt_refs st))"
| "entity_event fid (Failed st) =
     (table_of st \<noteq> realtime_feed_logs \<and> list_all (\<lambda>i. i = fid) (stmt_refs st))"
| "entity_event fid Commit = True"
| "entity_event fid Close = False"

definition batch_events :: "int \<Rightarrow> db_event list \<Rightarrow> bool" where
  "batch_events fid evs = list_all (entity_event fid) evs"

fun is_failed :: "db_event \<Rightarrow> bool" where
  "is_failed (Failed st) = True"
| "is_failed (Execute st) = False"
| "is_failed Commit = False"
| "is_failed Close = False"

definition no_failed :: "db_event list \<Rightarrow> bool" where
  "no_failed evs = list_all (\<lambda>ev. \<not> is_failed ev) evs"

definition outcome :: "exn + 'a \<Rightarrow> db_event list \<Rightarrow> bool" where
  "outcome r evs =
     (case r of
        Inr u \<Rightarrow> no_failed evs
      | Inl x \<Rightarrow>
          (no_failed evs \<and> (\<exists>ts. x = ValueError ts)) \<or>
          (\<exists>pre st. evs = pre @ [Failed st] \<and> no_failed pre \<and> x = DatabaseError (table_of st)))"

definition writes :: "world \<Rightarrow> db_event list \<Rightarrow> 'a result \<Rightarrow> bool" where
  "writes w evs res =
     (trace (snd res) = trace w @ evs \<and>
      next_feed_log_id (snd res) = next_feed_log_id w \<and>
      outcome (fst res) evs)"

fun event_refs :: "db_event \<Rightarrow> int list" where
  "event_refs (Execute st) = stmt_refs st"
| "event_refs (Failed st) = stmt_refs st"
| "event_refs Commit = []"
| "event_refs Close = []"

definition refs :: "db_event list \<Rightarrow> int list" where
  "refs evs = concat (map event_refs evs)"

text \<open>
  Counting: the rows a trace inserts into a table with statements that did not raise, the
  statements it sends for a table, and the entities of a message that carry a payload of a
  kind (what \<^verbatim>\<open>HasField\<close> would count).
\<close>

fun stmt_size :: "statement \<Rightarrow> nat" where
  "stmt_size (InsertFeedLog i u n t s e) = 1"
| "stmt_size (InsertTripUpdates rs) = length rs"
| "stmt_size (InsertStopTimeUpdates rs) = length rs"
| "stmt_size (InsertVehiclePositions rs) = length rs"
| "stmt_size (InsertServiceAlerts rs) = length rs"

fun rows_of_event :: "table \<Rightarrow> db_event \<Rightarrow> nat" where
  "rows_of_event t (Execute st) = (if table_of st = t then stmt_size st else 0)"
| "rows_of_event t (Failed st) = 0"
| "rows_of_event t Commit = 0"
| "rows_of_event t Close = 0"

definition rows_written :: "table \<Rightarrow> db_event list \<Rightarrow> nat" where
  "rows_written t evs = sum_list (map (rows_of_event t) evs)"

fun is_statement_on :: "table \<Rightarrow> db_event \<Rightarrow> bool" where
  "is_statement_on t (Execute st) = (table_of st = t)"
| "is_statement_on t (Failed st) = (table_of st = t)"
| "is_statement_on t Commit = False"
| "is_statement_on t Close = False"

definition statements_on :: "table \<Rightarrow> db_event list \<Rightarrow> nat" where
  "statements_on t evs = length (filter (is_statement_on t) evs)"

definition carrying_trip_update :: "feed_entity list \<Rightarrow> nat" where
  "carrying_trip_update es = length (filter (\<lambda>e. fe_trip_update e \<noteq> None) es)"

definition carrying_vehicle :: "feed_entity list \<Rightarrow> nat" where
  "carrying_vehicle es = length (filter (\<lambda>e. fe_vehicle e \<noteq> None) es)"

definition carrying_alert :: "feed_entity list \<Rightarrow> nat" where
  "carrying_alert es = length (filter (\<lambda>e. fe_alert e \<noteq> None) es)"

text \<open>The world in which \<^verbatim>\<open>main\<close> goes on after \<^verbatim>\<open>fetch_gtfs_rt_feed\<close> returned.\<close>

definition fetched_world :: "env \<Rightarrow> string \<times> string \<Rightarrow> world \<Rightarrow> world" where
  "fetched_world en feed w =
     snd (fetch_gtfs_rt_feed en (snd feed) (logging (Info_fetching_feed (fst feed) (snd feed)) w))"

subsection \<open>Sample inputs\<close>

text \<open>Worlds, feeds, entities and environments at which the theorems are evaluated.\<close>

definition world_0 :: world where
  "world_0 = \<lparr>trace = [], next_feed_log_id = 1, log = []\<rparr>"

definition subway_g :: "string \<times> string" where
  "subway_g = (''Subway-G'', ''https://api-endpoint.mta.info/Dataservice/mtagtfsfeeds/nyct%2Fgtfs-g'')"

definition subway_l :: "string \<times> string" where
  "subway_l = (''Subway-L'', ''https://api-endpoint.mta.info/Dataservice/mtagtfsfeeds/nyct%2Fgtfs-l'')"

definition trip_t1 :: trip_descriptor where
  "trip_t1 = \<lparr>trip_id = ''T1'', route_id = ''G'', start_date = ''20240101'', schedule_relationship = 0\<rparr>"

definition vehicle_only_entity :: feed_entity where
  "vehicle_only_entity =
     \<lparr>fe_trip_update = None,
      fe_vehicle = Some \<lparr>vp_trip = trip_t1, vp_vehicle = \<lparr>vd_id = ''V9''\<rparr>, vp_position = None,
                          vp_stop_id = ''G22'', current_status = 1, vp_timestamp = 1704100000\<rparr>,
      fe_alert = None\<rparr>"

definition empty_entity :: feed_entity where
  "empty_entity = \<lparr>fe_trip_update = None, fe_vehicle = None, fe_alert = None\<rparr>"

definition alert_only_entity :: feed_entity where
  "alert_only_entity =
     \<lparr>fe_trip_update = None, fe_vehicle = None,
      fe_alert = Some \<lparr>cause = 2, effect = 3,
                        header_text = Some \<lparr>ts_translation = [\<lparr>tr_text = ''Delays''\<rparr>]\<rparr>,
                        description_text = None\<rparr>\<rparr>"

definition full_entity :: feed_entity where
  "full_entity =
     \<lparr>fe_trip_update = Some \<lparr>tu_trip = trip_t1, tu_stop_time_update = []\<rparr>,
      fe_vehicle = Some \<lparr>vp_trip = trip_t1, vp_vehicle = \<lparr>vd_id = ''V9''\<rparr>, vp_position = None,
                          vp_stop_id = ''G22'', current_status = 1, vp_timestamp = 0\<rparr>,
      fe_alert = Some \<lparr>cause = 2, effect = 3, header_text = None, description_text = None\<rparr>\<rparr>"

definition env_serving :: "feed_message \<Rightarrow> env" where
  "env_serving fm =
     \<lparr>http_get = (\<lambda>url. Content (Message fm)), db_connects = True, db_rejects = (\<lambda>t. False)\<rparr>"

definition env_rejecting :: "feed_message \<Rightarrow> table \<Rightarrow> env" where
  "env_rejecting fm t0 =
     \<lparr>http_get = (\<lambda>url. Content (Message fm)), db_connects = True, db_rejects = (\<lambda>t. t = t0)\<rparr>"

definition env_timeout :: env where
  "env_timeout =
     \<lparr>http_get = (\<lambda>url. GetRaises ''Read timed out. (read timeout=30)''),
      db_connects = True, db_rejects = (\<lambda>t. False)\<rparr>"

definition env_malformed :: env where
  "env_malformed =
     \<lparr>http_get = (\<lambda>url. Content (DecodeError ''Error parsing message'')),
      db_connects = True, db_rejects = (\<lambda>t. False)\<rparr>"

definition message_of :: "feed_entity list \<Rightarrow> feed_message" where
  "message_of es = \<lparr>header = \<lparr>fh_timestamp = 1704100000\<rparr>, entity = es\<rparr>"

section \<open>Properties of the helper functions\<close>

lemma digit_val_digit_char: "d < 10 \<Longrightarrow> digit_val (digit_char d) = d"
  by (simp add: digit_val_def digit_char_def)

lemma decimal_nat_snoc: "decimal_nat (s @ [c]) = 10 * decimal_nat s + digit_val c"
  by (simp add: decimal_nat_def)

lemma decimal_nat_str_nat: "decimal_nat (str_nat n) = n"
proof (induction n rule: str_nat.induct)
  case (1 n)
  show ?case
  proof (cases "n < 10")
    case True
    then show ?thesis
      by (simp add: str_nat.simps[of n] decimal_nat_def digit_val_digit_char)
  next
    case False
    then have "decimal_nat (str_nat (n div 10)) = n div 10" using 1 by simp
    with False show ?thesis
      by (simp add: str_nat.simps[of n] decimal_nat_snoc digit_val_digit_char)
  qed
qed

lemma str_nat_not_Nil: "str_nat n \<noteq> []"
  by (simp add: str_nat.simps[of n])

lemma digit_char_not_minus: "d < 10 \<Longrightarrow> digit_char d \<noteq> CHR ''-''"
proof
  assume d: "d < 10" and eq: "digit_char d = CHR ''-''"
  have "(of_char (digit_char d) :: nat) = 48 + d" using d by (simp add: digit_char_def)
  moreover have "(of_char (CHR ''-'') :: nat) = 45" by simp
  ultimately show False using eq by simp
qed

lemma hd_str_nat: "hd (str_nat n) \<noteq> CHR ''-''"
proof (induction n rule: str_nat.induct)
  case (1 n)
  show ?case
  proof (cases "n < 10")
    case True
    then show ?thesis by (simp add: str_nat.simps[of n] digit_char_not_minus)
  next
    case False
    then show ?thesis using 1 by (simp add: str_nat.simps[of n] str_nat_not_Nil)
  qed
qed

lemma decimal_int_py_str: "decimal_int (py_str i) = i"
proof (cases "i < 0")
  case True
  then show ?thesis by (simp add: py_str_def decimal_int_def decimal_nat_str_nat)
next
  case False
  obtain c cs where s: "str_nat (nat i) = c # cs"
    using str_nat_not_Nil by (cases "str_nat (nat i)") auto
  have "c \<noteq> CHR ''-''" using hd_str_nat[of "nat i"] s by simp
  with False s show ?thesis
    using decimal_nat_str_nat[of "nat i"] by (simp add: py_str_def decimal_int_def)
qed

lemma py_str_0: "py_str 0 = ''0''"
  by code_simp

lemma utcfromtimestamp_in_range:
  "in_datetime_range ts \<Longrightarrow> \<exists>d. utcfromtimestamp ts = Inr d"
  by (simp add: in_datetime_range_def utcfromtimestamp_def Let_def split: prod.splits)

lemma utcfromtimestamp_out_of_range:
  "\<not> in_datetime_range ts \<Longrightarrow> utcfromtimestamp ts = Inl (ValueError ts)"
  by (auto simp add: in_datetime_range_def utcfromtimestamp_def)

lemma ts_to_datetime_0: "ts_to_datetime 0 = Inr None"
  by (simp add: ts_to_datetime_def truth_int_def)

lemma ts_to_datetime_Inr:
  "ts_to_datetime ts = Inr r \<Longrightarrow>
     r = (if ts = 0 then None else (case utcfromtimestamp ts of Inr d \<Rightarrow> Some d | Inl x \<Rightarrow> None))
     \<and> (ts \<noteq> 0 \<longrightarrow> in_datetime_range ts)"
  by (cases "in_datetime_range ts")
     (auto simp add: ts_to_datetime_def truth_int_def utcfromtimestamp_out_of_range
           split: sum.splits if_splits)

lemma ts_to_datetime_in_range:
  "in_datetime_range ts \<Longrightarrow> \<exists>r. ts_to_datetime ts = Inr r"
  using utcfromtimestamp_in_range[of ts]
  by (auto simp add: ts_to_datetime_def)

lemma translate_first:
  "translate m = (case ts_translation m of [] \<Rightarrow> [] | t # ts \<Rightarrow> tr_text t)"
  by (simp add: translate_def truth_message_def truth_repeated_def split: list.splits)

lemma trip_updates_data_rows:
  "trip_updates_data fid es = Inr (ts, ss) \<Longrightarrow>
     ts = map (\<lambda>e. trip_update_row fid (entity_trip_update e)) es"
  by (induction es arbitrary: ts ss)
     (auto simp add: truth_message_def Let_def split: sum.splits prod.splits)

lemma vehicle_positions_data_rows:
  "vehicle_positions_data fid es = Inr vs \<Longrightarrow>
     map Inr vs = map (\<lambda>e. vehicle_position_row fid (entity_vehicle e)) es"
  by (induction es arbitrary: vs)
     (auto simp add: truth_message_def split: sum.splits)

lemma alerts_data_rows:
  "alerts_data fid es = map (\<lambda>e. service_alert_row fid (entity_alert e)) es"
  by (induction es) (auto simp add: truth_message_def)

section \<open>The normalizers\<close>

text \<open>
  Claim C3. For every stop-time-update element, a row that is produced has \<open>arrival_time\<close>
  null whenever the arrival sub-message is absent or its time is zero, \<open>departure_time\<close> null
  under the same rule for the departure sub-message, and \<open>delay_seconds\<close> null whenever the
  arrival delay is absent or exactly 0, so that a genuine zero-second delay is stored as
  null. A row is produced whenever both times are within the range of \<^verbatim>\<open>datetime\<close>.
\<close>

theorem stop_time_update_row_nulls:
  "(\<forall>row. stop_time_update_row fid tid stu = Inr row \<longrightarrow>
      ((arrival stu = None \<or> (\<exists>a. arrival stu = Some a \<and> ev_time a = 0))
         \<longrightarrow> stu_arrival_time row = None) \<and>
      ((departure stu = None \<or> (\<exists>d. departure stu = Some d \<and> ev_time d = 0))
         \<longrightarrow> stu_departure_time row = None) \<and>
      ((arrival stu = None \<or> (\<exists>a. arrival stu = Some a \<and> ev_delay a = 0))
         \<longrightarrow> stu_delay_seconds row = None)) \<and>
   (in_datetime_range (ev_time (stu_arrival stu)) \<and> in_datetime_range (ev_time (stu_departure stu))
      \<longrightarrow> (\<exists>row. stop_time_update_row fid tid stu = Inr row))"
proof (intro conjI allI impI)
  fix row
  assume r: "stop_time_update_row fid tid stu = Inr row"
  {
    assume "arrival stu = None \<or> (\<exists>a. arrival stu = Some a \<and> ev_time a = 0)"
    then have "ev_time (stu_arrival stu) = 0"
      by (auto simp add: stu_arrival_def getattr_def default_stop_time_event_def)
    with r show "stu_arrival_time row = None"
      by (auto simp add: stop_time_update_row_def truth_int_def Let_def split: sum.splits)
  }
  {
    assume "departure stu = None \<or> (\<exists>d. departure stu = Some d \<and> ev_time d = 0)"
    then have "ev_time (stu_departure stu) = 0"
      by (auto simp add: stu_departure_def getattr_def default_stop_time_event_def)
    with r show "stu_departure_time row = None"
      by (auto simp add: stop_time_update_row_def truth_int_def Let_def split: sum.splits if_splits)
  }
  {
    assume "arrival stu = None \<or> (\<exists>a. arrival stu = Some a \<and> ev_delay a = 0)"
    then have "ev_delay (stu_arrival stu) = 0"
      by (auto simp add: stu_arrival_def getattr_def default_stop_time_event_def)
    with r show "stu_delay_seconds row = None"
      by (auto simp add: stop_time_update_row_def truth_int_def Let_def split: sum.splits if_splits)
  }
next
  assume "in_datetime_range (ev_time (stu_arrival stu)) \<and> in_datetime_range (ev_time (stu_departure stu))"
  then obtain a d where "ts_to_datetime (ev_time (stu_arrival stu)) = Inr a"
    and "ts_to_datetime (ev_time (stu_departure stu)) = Inr d"
    using ts_to_datetime_in_range by blast
  then show "\<exists>row. stop_time_update_row fid tid stu = Inr row"
    by (simp add: stop_time_update_row_def Let_def)
qed

theorem stop_time_update_row_nulls_witness:
  "in_datetime_range (ev_time (stu_arrival
      \<lparr>stop_sequence = 2, stop_id = ''S2'',
       arrival = Some \<lparr>ev_delay = 0, ev_time = 1704100000\<rparr>, departure = None\<rparr>)) \<and>
   (\<exists>row. stop_time_update_row 7 ''T1''
      \<lparr>stop_sequence = 2, stop_id = ''S2'',
       arrival = Some \<lparr>ev_delay = 0, ev_time = 1704100000\<rparr>, departure = None\<rparr> = Inr row \<and>
      stu_departure_time row = None \<and> stu_delay_seconds row = None)"
proof -
  let ?s = "\<lparr>stop_sequence = 2, stop_id = ''S2'',
       arrival = Some \<lparr>ev_delay = 0, ev_time = 1704100000\<rparr>, departure = None\<rparr>"
  have a: "in_datetime_range (ev_time (stu_arrival ?s))"
    by (simp add: in_datetime_range_def stu_arrival_def getattr_def)
  have d: "in_datetime_range (ev_time (stu_departure ?s))"
    by (simp add: in_datetime_range_def stu_departure_def getattr_def default_stop_time_event_def)
  note t = stop_time_update_row_nulls[of 7 "''T1''" ?s]
  from t a d obtain row where r: "stop_time_update_row 7 ''T1'' ?s = Inr row"
    by blast
  from t r have "stu_departure_time row = None" and "stu_delay_seconds row = None"
    by simp_all
  with a r show ?thesis by blast
qed

text \<open>
  Claim C5. Every entity carrying an alert contributes exactly one row to the batch of
  \<^verbatim>\<open>process_service_alerts\<close>, at its place; the row's header text (and likewise its
  description text) is the text of the first translation when the translated string is
  present and has a translation, and the empty string otherwise, never null.
\<close>

theorem service_alert_text:
  "fe_alert e = Some a \<Longrightarrow>
     alerts_data fid (es @ e # es') =
       alerts_data fid es @ service_alert_row fid a # alerts_data fid es' \<and>
     sa_header_text (service_alert_row fid a) =
       (case header_text a of
          None \<Rightarrow> []
        | Some m \<Rightarrow> (case ts_translation m of [] \<Rightarrow> [] | t # ts \<Rightarrow> tr_text t)) \<and>
     sa_description_text (service_alert_row fid a) =
       (case description_text a of
          None \<Rightarrow> []
        | Some m \<Rightarrow> (case ts_translation m of [] \<Rightarrow> [] | t # ts \<Rightarrow> tr_text t))"
  by (simp add: alerts_data_rows entity_alert_def getattr_def service_alert_row_def
        translate_first a_header_text_def a_description_text_def default_translated_string_def
      split: option.splits)

theorem service_alert_text_witness:
  "fe_alert \<lparr>fe_trip_update = None, fe_vehicle = None,
      fe_alert = Some \<lparr>cause = 2, effect = 3,
         header_text = Some \<lparr>ts_translation = []\<rparr>,
         description_text = Some \<lparr>ts_translation = [\<lparr>tr_text = ''Delays''\<rparr>, \<lparr>tr_text = ''Retrasos''\<rparr>]\<rparr>\<rparr>\<rparr>
    = Some \<lparr>cause = 2, effect = 3,
         header_text = Some \<lparr>ts_translation = []\<rparr>,
         description_text = Some \<lparr>ts_translation = [\<lparr>tr_text = ''Delays''\<rparr>, \<lparr>tr_text = ''Retrasos''\<rparr>]\<rparr>\<rparr> \<and>
   sa_header_text (service_alert_row 5 \<lparr>cause = 2, effect = 3,
         header_text = Some \<lparr>ts_translation = []\<rparr>,
         description_text = Some \<lparr>ts_translation = [\<lparr>tr_text = ''Delays''\<rparr>, \<lparr>tr_text = ''Retrasos''\<rparr>]\<rparr>\<rparr>) = [] \<and>
   sa_description_text (service_alert_row 5 \<lparr>cause = 2, effect = 3,
         header_text = Some \<lparr>ts_translation = []\<rparr>,
         description_text = Some \<lparr>ts_translation = [\<lparr>tr_text = ''Delays''\<rparr>, \<lparr>tr_text = ''Retrasos''\<rparr>]\<rparr>\<rparr>) = ''Delays''"
proof -
  let ?a = "\<lparr>cause = 2, effect = 3,
         header_text = Some \<lparr>ts_translation = []\<rparr>,
         description_text = Some \<lparr>ts_translation = [\<lparr>tr_text = ''Delays''\<rparr>, \<lparr>tr_text = ''Retrasos''\<rparr>]\<rparr>\<rparr>"
  let ?e = "\<lparr>fe_trip_update = None, fe_vehicle = None, fe_alert = Some ?a\<rparr>"
  have h: "fe_alert ?e = Some ?a" by simp
  from service_alert_text[OF h, of 5 "[]" "[]"] h show ?thesis by simp
qed

text \<open>
  Claim C10. The enum-valued columns (\<open>schedule_relationship\<close>, \<open>current_status\<close>,
  \<open>cause\<close>, \<open>effect\<close>) of every batch hold \<^verbatim>\<open>str\<close> of the enum's number: its decimal
  string, which reads back as that number and is \<open>''0''\<close> for 0; never a symbolic name.
\<close>

theorem enum_columns_decimal:
  "(\<forall>ts ss. trip_updates_data fid es = Inr (ts, ss) \<longrightarrow>
      map tu_schedule_relationship ts =
        map (\<lambda>e. py_str (schedule_relationship (tu_trip (entity_trip_update e)))) es) \<and>
   (\<forall>vs. vehicle_positions_data fid es = Inr vs \<longrightarrow>
      map vp_current_status vs = map (\<lambda>e. py_str (current_status (entity_vehicle e))) es) \<and>
   map sa_cause (alerts_data fid es) = map (\<lambda>e. py_str (cause (entity_alert e))) es \<and>
   map sa_effect (alerts_data fid es) = map (\<lambda>e. py_str (effect (entity_alert e))) es \<and>
   decimal_int (py_str n) = n \<and> py_str 0 = ''0''"
proof (intro conjI allI impI)
  fix ts ss
  assume "trip_updates_data fid es = Inr (ts, ss)"
  then have "ts = map (\<lambda>e. trip_update_row fid (entity_trip_update e)) es"
    by (rule trip_updates_data_rows)
  then show "map tu_schedule_relationship ts =
        map (\<lambda>e. py_str (schedule_relationship (tu_trip (entity_trip_update e)))) es"
    by (simp add: trip_update_row_def)
next
  fix vs
  assume "vehicle_positions_data fid es = Inr vs"
  then have m: "map Inr vs = map (\<lambda>e. vehicle_position_row fid (entity_vehicle e)) es"
    by (rule vehicle_positions_data_rows)
  then show "map vp_current_status vs = map (\<lambda>e. py_str (current_status (entity_vehicle e))) es"
  proof (induction es arbitrary: vs)
    case Nil
    then show ?case by simp
  next
    case (Cons e es)
    then obtain r rs where vs: "vs = r # rs" by (cases vs) auto
    with Cons.prems have r: "vehicle_position_row fid (entity_vehicle e) = Inr r"
      and rs: "map Inr rs = map (\<lambda>e. vehicle_position_row fid (entity_vehicle e)) es"
      by simp_all
    from r have "vp_current_status r = py_str (current_status (entity_vehicle e))"
      by (auto simp add: vehicle_position_row_def Let_def split: sum.splits)
    with Cons.IH[OF rs] vs show ?case by simp
  qed
next
  show "map sa_cause (alerts_data fid es) = map (\<lambda>e. py_str (cause (entity_alert e))) es"
    by (simp add: alerts_data_rows service_alert_row_def)
  show "map sa_effect (alerts_data fid es) = map (\<lambda>e. py_str (effect (entity_alert e))) es"
    by (simp add: alerts_data_rows service_alert_row_def)
  show "decimal_int (py_str n) = n" by (rule decimal_int_py_str)
  show "py_str 0 = ''0''" by (rule py_str_0)
qed

theorem enum_columns_decimal_witness:
  "trip_updates_data 4
     [\<lparr>fe_trip_update = Some \<lparr>tu_trip = \<lparr>trip_id = ''T1'', route_id = ''R1'',
          start_date = ''20240101'', schedule_relationship = 3\<rparr>, tu_stop_time_update = []\<rparr>,
       fe_vehicle = None, fe_alert = None\<rparr>]
     = Inr ([(4, ''T1'', ''R1'', ''20240101'', ''3'')], []) \<and>
   map tu_schedule_relationship [(4 :: int, ''T1'', ''R1'', ''20240101'', ''3'')]
     = map (\<lambda>e. py_str (schedule_relationship (tu_trip (entity_trip_update e))))
         [\<lparr>fe_trip_update = Some \<lparr>tu_trip = \<lparr>trip_id = ''T1'', route_id = ''R1'',
            start_date = ''20240101'', schedule_relationship = 3\<rparr>, tu_stop_time_update = []\<rparr>,
          fe_vehicle = None, fe_alert = None\<rparr>]"
proof -
  let ?es = "[\<lparr>fe_trip_update = Some \<lparr>tu_trip = \<lparr>trip_id = ''T1'', route_id = ''R1'',
          start_date = ''20240101'', schedule_relationship = 3\<rparr>, tu_stop_time_update = []\<rparr>,
       fe_vehicle = None, fe_alert = None\<rparr>]"
  have h: "trip_updates_data 4 ?es = Inr ([(4, ''T1'', ''R1'', ''20240101'', ''3'')], [])"
    by code_simp
  from enum_columns_decimal[of 4 ?es 0] h show ?thesis by blast
qed

section \<open>The poll cycle\<close>

lemma writes_nothing: "writes w [] (Inr u, w)"
  by (simp add: writes_def outcome_def no_failed_def)

lemma writes_raise: "writes w [] (Inl (ValueError ts), w)"
  by (simp add: writes_def outcome_def no_failed_def)

lemma outcome_seq:
  "outcome (Inr u) evs1 \<Longrightarrow> outcome r evs2 \<Longrightarrow> outcome r (evs1 @ evs2)"
  by (cases r) (auto simp add: outcome_def no_failed_def)

lemma writes_seq:
  "writes w evs1 (Inr u, w1) \<Longrightarrow> writes w1 evs2 res \<Longrightarrow> writes w (evs1 @ evs2) res"
  using outcome_seq[of u evs1 "fst res" evs2]
  by (simp add: writes_def)

lemma batch_events_append:
  "batch_events fid (evs1 @ evs2) = (batch_events fid evs1 \<and> batch_events fid evs2)"
  by (simp add: batch_events_def)

lemma execute_values_writes:
  "\<exists>evs. writes w evs (execute_values en st n w) \<and>
         (table_of st \<noteq> realtime_feed_logs \<and> list_all (\<lambda>i. i = fid) (stmt_refs st)
            \<longrightarrow> batch_events fid evs)"
proof (cases "db_rejects en (table_of st)")
  case True
  then have "writes w [Failed st] (execute_values en st n w)"
    by (simp add: writes_def execute_values_def execute_def outcome_def no_failed_def)
  then show ?thesis by (auto simp add: batch_events_def)
next
  case False
  then have "writes w [Execute st, Commit] (execute_values en st n w)"
    by (simp add: writes_def execute_values_def execute_def outcome_def no_failed_def
          commit_def logging_def)
  then show ?thesis by (auto simp add: batch_events_def)
qed

lemma stop_time_updates_data_fid:
  "stop_time_updates_data fid tid stus = Inr rs \<Longrightarrow> list_all (\<lambda>i. i = fid) (map fst rs)"
  by (induction stus arbitrary: rs)
     (auto simp add: stop_time_update_row_def Let_def split: sum.splits)

lemma trip_updates_data_fid:
  "trip_updates_data fid es = Inr (ts, ss) \<Longrightarrow>
     list_all (\<lambda>i. i = fid) (map fst ts) \<and> list_all (\<lambda>i. i = fid) (map fst ss)"
proof (induction es arbitrary: ts ss)
  case Nil
  then show ?case by simp
next
  case (Cons e es)
  then show ?case
    by (auto simp add: truth_message_def Let_def trip_update_row_def
          dest: stop_time_updates_data_fid split: sum.splits prod.splits)
qed

lemma vehicle_positions_data_fid:
  "vehicle_positions_data fid es = Inr vs \<Longrightarrow> list_all (\<lambda>i. i = fid) (map fst vs)"
  by (induction es arbitrary: vs)
     (auto simp add: truth_message_def vehicle_position_row_def Let_def split: sum.splits)

lemma alerts_data_fid: "list_all (\<lambda>i. i = fid) (map fst (alerts_data fid es))"
  by (induction es) (auto simp add: truth_message_def service_alert_row_def)

lemma utcfromtimestamp_Inl: "utcfromtimestamp ts = Inl x \<Longrightarrow> x = ValueError ts"
  using utcfromtimestamp_in_range[of ts] utcfromtimestamp_out_of_range[of ts]
  by (cases "in_datetime_range ts") auto

lemma ts_to_datetime_Inl: "ts_to_datetime ts = Inl x \<Longrightarrow> x = ValueError ts"
  by (auto simp add: ts_to_datetime_def dest: utcfromtimestamp_Inl split: sum.splits if_splits)

lemma stop_time_update_row_raises:
  "stop_time_update_row fid tid stu = Inl x \<Longrightarrow> \<exists>ts. x = ValueError ts"
  by (auto simp add: stop_time_update_row_def Let_def dest: ts_to_datetime_Inl
           split: sum.splits if_splits)

lemma vehicle_position_row_raises:
  "vehicle_position_row fid v = Inl x \<Longrightarrow> \<exists>ts. x = ValueError ts"
  by (auto simp add: vehicle_position_row_def Let_def dest: ts_to_datetime_Inl
           split: sum.splits if_splits)

lemma data_raises_ValueError_stu:
  "stop_time_updates_data fid tid stus = Inl x \<Longrightarrow> \<exists>ts. x = ValueError ts"
  by (induction stus)
     (auto dest: stop_time_update_row_raises split: sum.splits if_splits)

lemma trip_updates_data_raises:
  "trip_updates_data fid es = Inl x \<Longrightarrow> \<exists>ts. x = ValueError ts"
  by (induction es)
     (auto simp add: truth_message_def Let_def dest: data_raises_ValueError_stu
           split: sum.splits prod.splits)

lemma vehicle_positions_data_raises:
  "vehicle_positions_data fid es = Inl x \<Longrightarrow> \<exists>ts. x = ValueError ts"
  by (induction es)
     (auto simp add: truth_message_def dest: vehicle_position_row_raises
           split: sum.splits if_splits)

lemma process_trip_updates_writes:
  "\<exists>evs. writes w evs (process_trip_updates en fid fm w) \<and> batch_events fid evs"
proof (cases "trip_updates_data fid (entity fm)")
  case (Inl x)
  then obtain ts where "x = ValueError ts" using trip_updates_data_raises by blast
  with Inl have "process_trip_updates en fid fm w = (Inl (ValueError ts), w)"
    by (simp add: process_trip_updates_def)
  then show ?thesis using writes_raise[of w ts] by (auto simp add: batch_events_def)
next
  case (Inr p)
  obtain tdata sdata where p: "p = (tdata, sdata)" by (cases p)
  from Inr p have f: "list_all (\<lambda>i. i = fid) (map fst tdata)" "list_all (\<lambda>i. i = fid) (map fst sdata)"
    using trip_updates_data_fid by blast+
  obtain r1 w1 where s1: "(if tdata \<noteq> []
                 then execute_values en (InsertTripUpdates tdata) (length tdata) w
                 else (Inr (), w)) = (r1, w1)" by fastforce
  obtain evs1 where e1: "writes w evs1 (r1, w1)" "batch_events fid evs1"
  proof (cases "tdata = []")
    case True
    with s1 that[of "[]"] show ?thesis by (auto simp add: writes_nothing batch_events_def)
  next
    case False
    with s1 f execute_values_writes[of w en "InsertTripUpdates tdata" "length tdata" fid] that
    show ?thesis by auto
  qed
  show ?thesis
  proof (cases r1)
    case (Inl x)
    with Inr p s1 have "process_trip_updates en fid fm w = (Inl x, w1)"
      by (simp add: process_trip_updates_def)
    with e1 Inl show ?thesis by auto
  next
    case r: (Inr u)
    obtain res where s2: "(if sdata \<noteq> []
                then execute_values en (InsertStopTimeUpdates sdata) (length sdata) w1
                else (Inr (), w1)) = res" by simp
    obtain evs2 where e2: "writes w1 evs2 res" "batch_events fid evs2"
    proof (cases "sdata = []")
      case True
      with s2 that[of "[]"] show ?thesis by (auto simp add: writes_nothing batch_events_def)
    next
      case False
      with s2 f execute_values_writes[of w1 en "InsertStopTimeUpdates sdata" "length sdata" fid] that
      show ?thesis by auto
    qed
    from Inr p s1 s2 r have "process_trip_updates en fid fm w = res"
      by (simp add: process_trip_updates_def)
    moreover from e1 r e2 have "writes w (evs1 @ evs2) res" by (auto intro: writes_seq)
    ultimately show ?thesis using e1 e2 by (auto simp add: batch_events_append)
  qed
qed

lemma process_vehicle_positions_writes:
  "\<exists>evs. writes w evs (process_vehicle_positions en fid fm w) \<and> batch_events fid evs"
proof (cases "vehicle_positions_data fid (entity fm)")
  case (Inl x)
  then obtain ts where "x = ValueError ts" using vehicle_positions_data_raises by blast
  with Inl have "process_vehicle_positions en fid fm w = (Inl (ValueError ts), w)"
    by (simp add: process_vehicle_positions_def)
  then show ?thesis using writes_raise[of w ts] by (auto simp add: batch_events_def)
next
  case (Inr vdata)
  then have f: "list_all (\<lambda>i. i = fid) (map fst vdata)"
    by (rule vehicle_positions_data_fid)
  show ?thesis
  proof (cases "vdata = []")
    case True
    with Inr have "process_vehicle_positions en fid fm w = (Inr (), w)"
      by (simp add: process_vehicle_positions_def)
    then show ?thesis
      by (intro exI[of _ "[]"]) (simp add: writes_nothing batch_events_def)
  next
    case False
    with Inr have "process_vehicle_positions en fid fm w =
        execute_values en (InsertVehiclePositions vdata) (length vdata) w"
      by (simp add: process_vehicle_positions_def)
    with f execute_values_writes[of w en "InsertVehiclePositions vdata" "length vdata" fid]
    show ?thesis by auto
  qed
qed

lemma process_service_alerts_writes:
  "\<exists>evs. writes w evs (process_service_alerts en fid fm w) \<and> batch_events fid evs"
proof (cases "alerts_data fid (entity fm) = []")
  case True
  then have "process_service_alerts en fid fm w = (Inr (), w)"
    by (simp add: process_service_alerts_def)
  then show ?thesis
    by (intro exI[of _ "[]"]) (simp add: writes_nothing batch_events_def)
next
  case False
  then have "process_service_alerts en fid fm w =
      execute_values en (InsertServiceAlerts (alerts_data fid (entity fm)))
        (length (alerts_data fid (entity fm))) w"
    by (simp add: process_service_alerts_def Let_def)
  with alerts_data_fid[of fid "entity fm"]
    execute_values_writes[of w en "InsertServiceAlerts (alerts_data fid (entity fm))"
      "length (alerts_data fid (entity fm))" fid]
  show ?thesis by auto
qed

lemma guarded_writes:
  assumes "\<exists>evs. writes w evs (f w) \<and> batch_events fid evs"
  shows "\<exists>evs. writes w evs (if b then f w else (Inr (), w)) \<and> batch_events fid evs"
proof (cases b)
  case True
  with assms show ?thesis by simp
next
  case False
  then show ?thesis
    by (intro exI[of _ "[]"]) (simp add: writes_nothing batch_events_def)
qed

lemma then_writes:
  assumes 1: "\<exists>evs. writes w evs (res :: unit result) \<and> batch_events fid evs"
    and 2: "\<And>w1. \<exists>evs. writes w1 evs (g w1 :: unit result) \<and> batch_events fid evs"
  shows "\<exists>evs. writes w evs (case res of (Inl x, w1) \<Rightarrow> (Inl x, w1) | (Inr u, w1) \<Rightarrow> g w1)
           \<and> batch_events fid evs"
proof -
  obtain r w1 where res: "res = (r, w1)" by (cases res)
  from 1 res obtain evs1 where e1: "writes w evs1 (r, w1)" "batch_events fid evs1" by blast
  show ?thesis
  proof (cases r)
    case (Inl x)
    with res e1 show ?thesis by auto
  next
    case (Inr u)
    from 2[of w1] obtain evs2 where e2: "writes w1 evs2 (g w1)" "batch_events fid evs2" by blast
    from e1 Inr e2 have "writes w (evs1 @ evs2) (g w1)" by (auto intro: writes_seq)
    with res Inr e1 e2 show ?thesis by (auto simp add: batch_events_append)
  qed
qed

lemma process_feed_message_writes:
  "\<exists>evs. writes w evs (process_feed_message en fid fm w) \<and> batch_events fid evs"
  unfolding process_feed_message_def Let_def
  by (intro then_writes guarded_writes process_trip_updates_writes
        process_vehicle_positions_writes process_service_alerts_writes)

lemma batch_events_refs: "batch_events fid evs \<Longrightarrow> list_all (\<lambda>i. i = fid) (refs evs)"
proof (induction evs)
  case Nil
  then show ?case by (simp add: refs_def)
next
  case (Cons ev evs)
  then show ?case by (cases ev) (auto simp add: refs_def batch_events_def)
qed

lemma log_feed_fetch_rejected:
  "db_rejects en realtime_feed_logs \<Longrightarrow>
     fst (log_feed_fetch en n u t s e w) = Inl (DatabaseError realtime_feed_logs) \<and>
     trace (snd (log_feed_fetch en n u t s e w)) =
       trace w @ [Failed (InsertFeedLog (next_feed_log_id w) u n t s e)] \<and>
     next_feed_log_id (snd (log_feed_fetch en n u t s e w)) = next_feed_log_id w \<and>
     log (snd (log_feed_fetch en n u t s e w)) = log w"
  by (simp add: log_feed_fetch_def execute_def Let_def)

lemma log_feed_fetch_accepted:
  "\<not> db_rejects en realtime_feed_logs \<Longrightarrow>
     fst (log_feed_fetch en n u t s e w) = Inr (next_feed_log_id w) \<and>
     trace (snd (log_feed_fetch en n u t s e w)) =
       trace w @ [Execute (InsertFeedLog (next_feed_log_id w) u n t s e), Commit] \<and>
     next_feed_log_id (snd (log_feed_fetch en n u t s e w)) = next_feed_log_id w + 1 \<and>
     log (snd (log_feed_fetch en n u t s e w)) = log w"
  by (simp add: log_feed_fetch_def execute_def commit_def Let_def)

lemma fetch_gtfs_rt_feed_world:
  "trace (snd (fetch_gtfs_rt_feed en url w)) = trace w \<and>
   next_feed_log_id (snd (fetch_gtfs_rt_feed en url w)) = next_feed_log_id w"
  by (simp add: fetch_gtfs_rt_feed_def logging_def split: http_result.splits decode_result.splits)

lemma fetch_gtfs_rt_feed_result:
  "fst (fetch_gtfs_rt_feed en url w) =
     (case http_get en url of Content (Message fm) \<Rightarrow> Some fm | _ \<Rightarrow> None)"
  by (simp add: fetch_gtfs_rt_feed_def split: http_result.splits decode_result.splits)

lemma fetched_world_same:
  "trace (fetched_world en feed w) = trace w \<and>
   next_feed_log_id (fetched_world en feed w) = next_feed_log_id w"
  by (simp add: fetched_world_def fetch_gtfs_rt_feed_world logging_def)

lemma poll_feed_failed_fetch:
  assumes "fst (fetch_gtfs_rt_feed en (snd feed) (logging (Info_fetching_feed (fst feed) (snd feed)) w)) = None"
  shows "fst (poll_feed en feed w) =
           (case fst (log_feed_fetch en (fst feed) (snd feed) None False
                   (Some ''Failed to fetch or parse protobuf'') (fetched_world en feed w)) of
              Inl x \<Rightarrow> Inl x | Inr i \<Rightarrow> Inr ())"
    and "snd (poll_feed en feed w) =
           snd (log_feed_fetch en (fst feed) (snd feed) None False
                   (Some ''Failed to fetch or parse protobuf'') (fetched_world en feed w))"
proof -
  have fw: "fetch_gtfs_rt_feed en (snd feed)
      (logging (Info_fetching_feed (fst feed) (snd feed)) w) = (None, fetched_world en feed w)"
    using assms by (simp add: fetched_world_def prod_eq_iff)
  obtain r w2 where l: "log_feed_fetch en (fst feed) (snd feed) None False
      (Some ''Failed to fetch or parse protobuf'') (fetched_world en feed w) = (r, w2)"
    by fastforce
  from fw l show "fst (poll_feed en feed w) =
           (case fst (log_feed_fetch en (fst feed) (snd feed) None False
                   (Some ''Failed to fetch or parse protobuf'') (fetched_world en feed w)) of
              Inl x \<Rightarrow> Inl x | Inr i \<Rightarrow> Inr ())"
    by (cases r) (simp_all add: poll_feed_def Let_def)
  from fw l show "snd (poll_feed en feed w) =
           snd (log_feed_fetch en (fst feed) (snd feed) None False
                   (Some ''Failed to fetch or parse protobuf'') (fetched_world en feed w))"
    by (cases r) (simp_all add: poll_feed_def Let_def)
qed

lemma poll_feed_decoded:
  assumes "fst (fetch_gtfs_rt_feed en (snd feed) (logging (Info_fetching_feed (fst feed) (snd feed)) w)) = Some fm"
  shows "poll_feed en feed w =
           (case (if truth_int (fh_timestamp (header fm))
                  then ts_to_datetime (fh_timestamp (header fm)) else Inr None) of
              Inl x \<Rightarrow> (Inl x, fetched_world en feed w)
            | Inr feed_timestamp \<Rightarrow>
                (case log_feed_fetch en (fst feed) (snd feed) feed_timestamp True None
                        (fetched_world en feed w) of
                   (Inl x, w2) \<Rightarrow> (Inl x, w2)
                 | (Inr feed_log_id, w2) \<Rightarrow> process_feed_message en feed_log_id fm w2))"
proof -
  have fw: "fetch_gtfs_rt_feed en (snd feed)
      (logging (Info_fetching_feed (fst feed) (snd feed)) w) = (Some fm, fetched_world en feed w)"
    using assms by (simp add: fetched_world_def prod_eq_iff)
  then show ?thesis
    by (simp add: poll_feed_def Let_def)
qed

lemma outcome_after_commit:
  "outcome r rest \<Longrightarrow> outcome r (Execute st # Commit # rest)"
  using outcome_seq[of "()" "[Execute st, Commit]" r rest]
  by (simp add: outcome_def no_failed_def)

lemma guarded_ts_to_datetime:
  "(if truth_int ts then ts_to_datetime ts else Inr None) = ts_to_datetime ts"
  by (simp add: ts_to_datetime_def)

lemma poll_feed_events_failed:
  assumes "fst (fetch_gtfs_rt_feed en (snd feed) (logging (Info_fetching_feed (fst feed) (snd feed)) w)) = None"
  shows "if db_rejects en realtime_feed_logs
         then fst (poll_feed en feed w) = Inl (DatabaseError realtime_feed_logs) \<and>
              trace (snd (poll_feed en feed w)) =
                trace w @ [Failed (InsertFeedLog (next_feed_log_id w) (snd feed) (fst feed) None False
                                     (Some ''Failed to fetch or parse protobuf''))] \<and>
              next_feed_log_id (snd (poll_feed en feed w)) = next_feed_log_id w
         else fst (poll_feed en feed w) = Inr () \<and>
              trace (snd (poll_feed en feed w)) =
                trace w @ [Execute (InsertFeedLog (next_feed_log_id w) (snd feed) (fst feed) None False
                                      (Some ''Failed to fetch or parse protobuf'')), Commit] \<and>
              next_feed_log_id (snd (poll_feed en feed w)) = next_feed_log_id w + 1"
proof -
  let ?w1 = "fetched_world en feed w"
  note same = fetched_world_same[of en feed w]
  note pf = poll_feed_failed_fetch[OF assms]
  show ?thesis
  proof (cases "db_rejects en realtime_feed_logs")
    case True
    from log_feed_fetch_rejected[OF True, of "fst feed" "snd feed" None False
        "Some ''Failed to fetch or parse protobuf''" ?w1] pf same True
    show ?thesis by simp
  next
    case False
    from log_feed_fetch_accepted[OF False, of "fst feed" "snd feed" None False
        "Some ''Failed to fetch or parse protobuf''" ?w1] pf same False
    show ?thesis by simp
  qed
qed

lemma poll_feed_events_decoded:
  assumes "fst (fetch_gtfs_rt_feed en (snd feed) (logging (Info_fetching_feed (fst feed) (snd feed)) w)) = Some fm"
  shows "\<exists>evs. trace (snd (poll_feed en feed w)) = trace w @ evs \<and>
         outcome (fst (poll_feed en feed w)) evs \<and>
         (evs = [] \<and> next_feed_log_id (snd (poll_feed en feed w)) = next_feed_log_id w \<or>
          (\<exists>ts. ts_to_datetime (fh_timestamp (header fm)) = Inr ts \<and>
              evs = [Failed (InsertFeedLog (next_feed_log_id w) (snd feed) (fst feed) ts True None)]) \<and>
            next_feed_log_id (snd (poll_feed en feed w)) = next_feed_log_id w \<or>
          (\<exists>ts rest. ts_to_datetime (fh_timestamp (header fm)) = Inr ts \<and>
              evs = Execute (InsertFeedLog (next_feed_log_id w) (snd feed) (fst feed) ts True None)
                      # Commit # rest \<and>
              batch_events (next_feed_log_id w) rest) \<and>
            next_feed_log_id (snd (poll_feed en feed w)) = next_feed_log_id w + 1)"
proof -
  let ?w1 = "fetched_world en feed w"
  let ?nid = "next_feed_log_id w"
  note same = fetched_world_same[of en feed w]
  note pf = poll_feed_decoded[OF assms, unfolded guarded_ts_to_datetime]
  show ?thesis
  proof (cases "ts_to_datetime (fh_timestamp (header fm))")
    case (Inl x)
    then have "x = ValueError (fh_timestamp (header fm))"
      by (rule ts_to_datetime_Inl)
    with Inl pf same show ?thesis
      by (intro exI[of _ "[]"]) (simp add: outcome_def no_failed_def)
  next
    case (Inr feed_timestamp)
    let ?st = "InsertFeedLog ?nid (snd feed) (fst feed) feed_timestamp True None"
    let ?l = "log_feed_fetch en (fst feed) (snd feed) feed_timestamp True None ?w1"
    from Inr pf have pf': "poll_feed en feed w =
        (case ?l of (Inl x, w2) \<Rightarrow> (Inl x, w2)
         | (Inr feed_log_id, w2) \<Rightarrow> process_feed_message en feed_log_id fm w2)"
      by simp
    show ?thesis
    proof (cases "db_rejects en realtime_feed_logs")
      case True
      from log_feed_fetch_rejected[OF True, of "fst feed" "snd feed" feed_timestamp True None ?w1] same
      have l: "fst ?l = Inl (DatabaseError realtime_feed_logs)"
        "trace (snd ?l) = trace w @ [Failed ?st]" "next_feed_log_id (snd ?l) = ?nid"
        by simp_all
      from l(1) pf' have "poll_feed en feed w = (Inl (DatabaseError realtime_feed_logs), snd ?l)"
        by (cases ?l) simp
      moreover have "outcome (Inl (DatabaseError realtime_feed_logs) :: exn + unit) [Failed ?st]"
        by (simp add: outcome_def no_failed_def)
      ultimately show ?thesis using l Inr by (intro exI[of _ "[Failed ?st]"]) auto
    next
      case False
      from log_feed_fetch_accepted[OF False, of "fst feed" "snd feed" feed_timestamp True None ?w1] same
      have l: "fst ?l = Inr ?nid"
        "trace (snd ?l) = trace w @ [Execute ?st, Commit]" "next_feed_log_id (snd ?l) = ?nid + 1"
        by simp_all
      from l(1) pf' have p: "poll_feed en feed w = process_feed_message en ?nid fm (snd ?l)"
        by (cases ?l) simp
      from process_feed_message_writes[of "snd ?l" en ?nid fm]
      obtain rest where r: "writes (snd ?l) rest (process_feed_message en ?nid fm (snd ?l))"
        "batch_events ?nid rest" by blast
      from r(1) p l have "trace (snd (poll_feed en feed w)) = trace w @ (Execute ?st # Commit # rest)"
        and "next_feed_log_id (snd (poll_feed en feed w)) = ?nid + 1"
        and "outcome (fst (poll_feed en feed w)) (Execute ?st # Commit # rest)"
        by (simp_all add: writes_def outcome_after_commit)
      with r(2) Inr show ?thesis by (intro exI[of _ "Execute ?st # Commit # rest"]) auto
    qed
  qed
qed

lemma refs_simps:
  "refs [] = []"
  "refs [Failed (InsertFeedLog i u n t s e)] = []"
  "refs (Execute (InsertFeedLog i u n t s e) # Commit # rest) = refs rest"
  "refs (evs1 @ evs2) = refs evs1 @ refs evs2"
  by (simp_all add: refs_def)

lemma poll_feed_events:
  "\<exists>evs. trace (snd (poll_feed en feed w)) = trace w @ evs \<and>
         outcome (fst (poll_feed en feed w)) evs \<and>
         next_feed_log_id w \<le> next_feed_log_id (snd (poll_feed en feed w)) \<and>
         list_all (\<lambda>i. i = next_feed_log_id w) (refs evs)"
proof (cases "fst (fetch_gtfs_rt_feed en (snd feed) (logging (Info_fetching_feed (fst feed) (snd feed)) w))")
  case None
  let ?st = "InsertFeedLog (next_feed_log_id w) (snd feed) (fst feed) None False
               (Some ''Failed to fetch or parse protobuf'')"
  show ?thesis
  proof (cases "db_rejects en realtime_feed_logs")
    case True
    with poll_feed_events_failed[OF None] show ?thesis
      by (intro exI[of _ "[Failed ?st]"]) (simp add: outcome_def no_failed_def refs_simps)
  next
    case False
    with poll_feed_events_failed[OF None] show ?thesis
      by (intro exI[of _ "[Execute ?st, Commit]"]) (simp add: outcome_def no_failed_def refs_def)
  qed
next
  case (Some fm)
  from poll_feed_events_decoded[OF Some] obtain evs where
    e: "trace (snd (poll_feed en feed w)) = trace w @ evs" "outcome (fst (poll_feed en feed w)) evs"
    and c: "evs = [] \<and> next_feed_log_id (snd (poll_feed en feed w)) = next_feed_log_id w \<or>
          (\<exists>ts. ts_to_datetime (fh_timestamp (header fm)) = Inr ts \<and>
              evs = [Failed (InsertFeedLog (next_feed_log_id w) (snd feed) (fst feed) ts True None)]) \<and>
            next_feed_log_id (snd (poll_feed en feed w)) = next_feed_log_id w \<or>
          (\<exists>ts rest. ts_to_datetime (fh_timestamp (header fm)) = Inr ts \<and>
              evs = Execute (InsertFeedLog (next_feed_log_id w) (snd feed) (fst feed) ts True None)
                      # Commit # rest \<and>
              batch_events (next_feed_log_id w) rest) \<and>
            next_feed_log_id (snd (poll_feed en feed w)) = next_feed_log_id w + 1"
    by blast
  from c have "next_feed_log_id w \<le> next_feed_log_id (snd (poll_feed en feed w))"
    and "list_all (\<lambda>i. i = next_feed_log_id w) (refs evs)"
    by (auto simp add: refs_simps dest: batch_events_refs)
  with e show ?thesis by blast
qed

lemma poll_feed_next_id:
  "next_feed_log_id (snd (poll_feed en feed w)) \<le> next_feed_log_id w + 1"
proof (cases "fst (fetch_gtfs_rt_feed en (snd feed) (logging (Info_fetching_feed (fst feed) (snd feed)) w))")
  case None
  with poll_feed_events_failed[OF None] show ?thesis by (simp split: if_splits)
next
  case (Some fm)
  with poll_feed_events_decoded[OF Some] show ?thesis by auto
qed

lemma poll_feeds_events:
  "\<exists>evs. trace (snd (poll_feeds en feeds w)) = trace w @ evs \<and>
         outcome (fst (poll_feeds en feeds w)) evs \<and>
         next_feed_log_id w \<le> next_feed_log_id (snd (poll_feeds en feeds w)) \<and>
         list_all (\<lambda>i. next_feed_log_id w \<le> i) (refs evs)"
proof (induction feeds arbitrary: w)
  case Nil
  show ?case by (intro exI[of _ "[]"]) (simp add: outcome_def no_failed_def refs_def)
next
  case (Cons feed feeds)
  obtain r w1 where p: "poll_feed en feed w = (r, w1)" by fastforce
  from poll_feed_events[of en feed w] p obtain evs1 where
    e1: "trace w1 = trace w @ evs1" "outcome r evs1" "next_feed_log_id w \<le> next_feed_log_id w1"
      "list_all (\<lambda>i. i = next_feed_log_id w) (refs evs1)"
    by auto
  from e1(4) have g1: "list_all (\<lambda>i. next_feed_log_id w \<le> i) (refs evs1)"
    by (simp add: list_all_iff)
  show ?case
  proof (cases r)
    case (Inl x)
    with p have "poll_feeds en (feed # feeds) w = (Inl x, w1)" by simp
    with e1 g1 Inl show ?thesis by (intro exI[of _ evs1]) simp
  next
    case (Inr u)
    with p have pf: "poll_feeds en (feed # feeds) w = poll_feeds en feeds w1" by simp
    from Cons.IH[of w1] obtain evs2 where
      e2: "trace (snd (poll_feeds en feeds w1)) = trace w1 @ evs2"
        "outcome (fst (poll_feeds en feeds w1)) evs2"
        "next_feed_log_id w1 \<le> next_feed_log_id (snd (poll_feeds en feeds w1))"
        "list_all (\<lambda>i. next_feed_log_id w1 \<le> i) (refs evs2)"
      by blast
    from e2(4) e1(3) have g2: "list_all (\<lambda>i. next_feed_log_id w \<le> i) (refs evs2)"
      by (auto simp add: list_all_iff)
    from e1(2) Inr e2(2) have "outcome (fst (poll_feeds en feeds w1)) (evs1 @ evs2)"
      by (auto intro: outcome_seq)
    with pf e1 e2 g1 g2 show ?thesis
      by (intro exI[of _ "evs1 @ evs2"]) (simp add: refs_simps)
  qed
qed

lemma fetched_iff:
  "fst (fetch_gtfs_rt_feed en url w) = Some fm \<longleftrightarrow> http_get en url = Content (Message fm)"
  by (auto simp add: fetch_gtfs_rt_feed_def split: http_result.splits decode_result.splits)

lemma fetched_None_iff:
  "fst (fetch_gtfs_rt_feed en url w) = None \<longleftrightarrow> (\<forall>fm. http_get en url \<noteq> Content (Message fm))"
  by (auto simp add: fetch_gtfs_rt_feed_def split: http_result.splits decode_result.splits)

lemma poll_feed_logged:
  assumes f: "fst (fetch_gtfs_rt_feed en (snd feed) (logging (Info_fetching_feed (fst feed) (snd feed)) w)) = Some fm"
    and ts: "ts_to_datetime (fh_timestamp (header fm)) = Inr ts"
    and db: "\<not> db_rejects en realtime_feed_logs"
  shows "\<exists>rest. trace (snd (poll_feed en feed w)) =
                  trace w @ Execute (InsertFeedLog (next_feed_log_id w) (snd feed) (fst feed) ts True None)
                              # Commit # rest \<and>
                batch_events (next_feed_log_id w) rest \<and>
                next_feed_log_id (snd (poll_feed en feed w)) = next_feed_log_id w + 1"
proof -
  let ?w1 = "fetched_world en feed w"
  let ?nid = "next_feed_log_id w"
  let ?st = "InsertFeedLog ?nid (snd feed) (fst feed) ts True None"
  let ?l = "log_feed_fetch en (fst feed) (snd feed) ts True None ?w1"
  note same = fetched_world_same[of en feed w]
  from poll_feed_decoded[OF f, unfolded guarded_ts_to_datetime] ts
  have pf': "poll_feed en feed w =
      (case ?l of (Inl x, w2) \<Rightarrow> (Inl x, w2)
       | (Inr feed_log_id, w2) \<Rightarrow> process_feed_message en feed_log_id fm w2)"
    by simp
  from log_feed_fetch_accepted[OF db, of "fst feed" "snd feed" ts True None ?w1] same
  have l: "fst ?l = Inr ?nid"
    "trace (snd ?l) = trace w @ [Execute ?st, Commit]" "next_feed_log_id (snd ?l) = ?nid + 1"
    by simp_all
  from l(1) pf' have p: "poll_feed en feed w = process_feed_message en ?nid fm (snd ?l)"
    by (cases ?l) simp
  from process_feed_message_writes[of "snd ?l" en ?nid fm]
  obtain rest where r: "writes (snd ?l) rest (process_feed_message en ?nid fm (snd ?l))"
    "batch_events ?nid rest" by blast
  from r(1) p l have "trace (snd (poll_feed en feed w)) = trace w @ (Execute ?st # Commit # rest)"
    and "next_feed_log_id (snd (poll_feed en feed w)) = ?nid + 1"
    by (simp_all add: writes_def)
  with r(2) show ?thesis by auto
qed

lemma no_failed_not_mem: "no_failed evs \<Longrightarrow> Failed st \<notin> set evs"
proof
  assume "no_failed evs" and "Failed st \<in> set evs"
  then have "\<not> is_failed (Failed st)" unfolding no_failed_def list_all_iff by blast
  then show False by simp
qed

lemma outcome_failed:
  assumes "outcome r evs" and "Failed st \<in> set evs"
  shows "r = Inl (DatabaseError (table_of st)) \<and> (\<exists>pre. evs = pre @ [Failed st] \<and> no_failed pre)"
proof (cases r)
  case (Inr u)
  with assms show ?thesis by (auto simp add: outcome_def dest: no_failed_not_mem)
next
  case (Inl x)
  with assms show ?thesis by (auto simp add: outcome_def dest: no_failed_not_mem)
qed

text \<open>
  Claim C4. For a feed whose fetch or decode fails, exactly one attempt is recorded, with
  \<open>success = False\<close> and a null header timestamp (as long as the database accepts the
  audit insert); nothing else is written for that feed, the poller goes on with the next
  feed of the catalogue, and no entity row written later in the cycle references that
  attempt.
\<close>

theorem failed_fetch_logged:
  assumes "\<forall>fm. http_get en (snd feed) \<noteq> Content (Message fm)"
    and "\<not> db_rejects en realtime_feed_logs"
  shows "fst (poll_feed en feed w) = Inr () \<and>
         trace (snd (poll_feed en feed w)) =
           trace w @ [Execute (InsertFeedLog (next_feed_log_id w) (snd feed) (fst feed) None False
                                 (Some ''Failed to fetch or parse protobuf'')), Commit] \<and>
         poll_feeds en (feed # feeds) w = poll_feeds en feeds (snd (poll_feed en feed w)) \<and>
         (\<exists>evs. trace (snd (poll_feeds en feeds (snd (poll_feed en feed w)))) =
                  trace (snd (poll_feed en feed w)) @ evs \<and>
                next_feed_log_id w \<notin> set (refs evs))"
proof -
  from assms(1) have n: "fst (fetch_gtfs_rt_feed en (snd feed)
      (logging (Info_fetching_feed (fst feed) (snd feed)) w)) = None"
    by (simp add: fetched_None_iff)
  from poll_feed_events_failed[OF n] assms(2)
  have a: "fst (poll_feed en feed w) = Inr ()"
    and b: "trace (snd (poll_feed en feed w)) =
           trace w @ [Execute (InsertFeedLog (next_feed_log_id w) (snd feed) (fst feed) None False
                                 (Some ''Failed to fetch or parse protobuf'')), Commit]"
    and c: "next_feed_log_id (snd (poll_feed en feed w)) = next_feed_log_id w + 1"
    by simp_all
  from a have d: "poll_feeds en (feed # feeds) w = poll_feeds en feeds (snd (poll_feed en feed w))"
    by (cases "poll_feed en feed w") simp
  from poll_feeds_events[of en feeds "snd (poll_feed en feed w)"] c
  obtain evs where "trace (snd (poll_feeds en feeds (snd (poll_feed en feed w)))) =
                  trace (snd (poll_feed en feed w)) @ evs"
    and "list_all (\<lambda>i. next_feed_log_id w + 1 \<le> i) (refs evs)"
    by auto
  then have "\<exists>evs. trace (snd (poll_feeds en feeds (snd (poll_feed en feed w)))) =
                  trace (snd (poll_feed en feed w)) @ evs \<and>
                next_feed_log_id w \<notin> set (refs evs)"
    by (intro exI[of _ evs]) (auto simp add: list_all_iff)
  with a b d show ?thesis by simp
qed

theorem failed_fetch_logged_witness:
  "(\<forall>fm. http_get env_timeout (snd subway_g) \<noteq> Content (Message fm)) \<and>
   \<not> db_rejects env_timeout realtime_feed_logs \<and>
   fst (poll_feed env_timeout subway_g world_0) = Inr () \<and>
   trace (snd (poll_feed env_timeout subway_g world_0)) =
     [Execute (InsertFeedLog 1 (snd subway_g) ''Subway-G'' None False
                 (Some ''Failed to fetch or parse protobuf'')), Commit]"
proof -
  have h1: "\<forall>fm. http_get env_timeout (snd subway_g) \<noteq> Content (Message fm)"
    by (simp add: env_timeout_def)
  have h2: "\<not> db_rejects env_timeout realtime_feed_logs"
    by (simp add: env_timeout_def)
  from failed_fetch_logged[OF h1 h2, of world_0 "[subway_l]"] h1 h2
  show ?thesis by (simp add: world_0_def subway_g_def)
qed

text \<open>
  Claim C7. In a poll of a feed that was fetched and decoded, whatever is written starts
  with the insert of the attempt and its commit, and every entity statement after them,
  of every kind, carries only rows with the generated id of that attempt; nothing is
  written for the feed when the audit insert fails. When the database accepts the audit
  insert and the header timestamp converts, the attempt is recorded and committed first.
\<close>

theorem attempt_committed_before_rows:
  assumes "http_get en (snd feed) = Content (Message fm)"
  shows "\<exists>evs. trace (snd (poll_feed en feed w)) = trace w @ evs \<and>
           (evs = [] \<or>
            (\<exists>ts. evs = [Failed (InsertFeedLog (next_feed_log_id w) (snd feed) (fst feed) ts True None)]) \<or>
            (\<exists>ts rest.
                evs = Execute (InsertFeedLog (next_feed_log_id w) (snd feed) (fst feed) ts True None)
                        # Commit # rest \<and>
                batch_events (next_feed_log_id w) rest)) \<and>
           (\<not> db_rejects en realtime_feed_logs \<and> in_datetime_range (fh_timestamp (header fm)) \<longrightarrow>
            (\<exists>ts rest.
                ts_to_datetime (fh_timestamp (header fm)) = Inr ts \<and>
                evs = Execute (InsertFeedLog (next_feed_log_id w) (snd feed) (fst feed) ts True None)
                        # Commit # rest \<and>
                batch_events (next_feed_log_id w) rest))"
proof -
  from assms have f: "fst (fetch_gtfs_rt_feed en (snd feed)
      (logging (Info_fetching_feed (fst feed) (snd feed)) w)) = Some fm"
    by (simp add: fetched_iff)
  show ?thesis
  proof (cases "\<not> db_rejects en realtime_feed_logs \<and> in_datetime_range (fh_timestamp (header fm))")
    case True
    then obtain ts where ts: "ts_to_datetime (fh_timestamp (header fm)) = Inr ts"
      using ts_to_datetime_in_range by blast
    from poll_feed_logged[OF f ts] True obtain rest where
      "trace (snd (poll_feed en feed w)) =
         trace w @ Execute (InsertFeedLog (next_feed_log_id w) (snd feed) (fst feed) ts True None)
                     # Commit # rest"
      and "batch_events (next_feed_log_id w) rest"
      by blast
    with ts show ?thesis
      by (intro exI[of _ "Execute (InsertFeedLog (next_feed_log_id w) (snd feed) (fst feed) ts True None)
                     # Commit # rest"]) auto
  next
    case False
    from poll_feed_events_decoded[OF f] obtain evs where
      "trace (snd (poll_feed en feed w)) = trace w @ evs"
      and "evs = [] \<or>
            (\<exists>ts. evs = [Failed (InsertFeedLog (next_feed_log_id w) (snd feed) (fst feed) ts True None)]) \<or>
            (\<exists>ts rest.
                evs = Execute (InsertFeedLog (next_feed_log_id w) (snd feed) (fst feed) ts True None)
                        # Commit # rest \<and>
                batch_events (next_feed_log_id w) rest)"
      by blast
    with False show ?thesis by (intro exI[of _ evs]) blast
  qed
qed

theorem attempt_committed_before_rows_witness:
  "http_get (env_serving (message_of [full_entity])) (snd subway_g) =
     Content (Message (message_of [full_entity])) \<and>
   \<not> db_rejects (env_serving (message_of [full_entity])) realtime_feed_logs \<and>
   in_datetime_range (fh_timestamp (header (message_of [full_entity]))) \<and>
   (\<exists>ts rest.
      trace (snd (poll_feed (env_serving (message_of [full_entity])) subway_g world_0)) =
        trace world_0 @ Execute (InsertFeedLog (next_feed_log_id world_0) (snd subway_g) (fst subway_g)
                                   ts True None) # Commit # rest \<and>
      batch_events (next_feed_log_id world_0) rest)"
proof -
  let ?en = "env_serving (message_of [full_entity])"
  have h: "http_get ?en (snd subway_g) = Content (Message (message_of [full_entity]))"
    by (simp add: env_serving_def)
  have d: "\<not> db_rejects ?en realtime_feed_logs"
    by (simp add: env_serving_def)
  have r: "in_datetime_range (fh_timestamp (header (message_of [full_entity])))"
    by (simp add: message_of_def in_datetime_range_def)
  from attempt_committed_before_rows[OF h, of world_0] d r
  have "\<exists>ts rest.
      trace (snd (poll_feed ?en subway_g world_0)) =
        trace world_0 @ Execute (InsertFeedLog (next_feed_log_id world_0) (snd subway_g) (fst subway_g)
                                   ts True None) # Commit # rest \<and>
      batch_events (next_feed_log_id world_0) rest"
    by blast
  with h d r show ?thesis by blast
qed

lemma poll_cycle_trace:
  "db_connects en \<Longrightarrow>
     trace (poll_cycle en feeds w) = trace (snd (poll_feeds en feeds w)) @ [Close]"
  by (cases "poll_feeds en feeds w")
     (auto simp add: poll_cycle_def logging_def close_def split: sum.splits)

lemma poll_cycle_log:
  "db_connects en \<Longrightarrow> fst (poll_feeds en feeds w) = Inl x \<Longrightarrow>
     Error_unexpected x \<in> set (log (poll_cycle en feeds w))"
  by (cases "poll_feeds en feeds w")
     (auto simp add: poll_cycle_def logging_def close_def split: sum.splits)

text \<open>
  Claim C6 says that a failing batch write of one entity kind is logged locally and leaves
  the batches of the other kinds of the same feed to be attempted. The collector has no
  handler around a batch: the exception leaves \<^verbatim>\<open>process_...\<close>, the loop body and the loop
  over the feeds, and is caught by \<^verbatim>\<open>except Exception\<close> of the cycle. As amended: when a
  batch write fails, the failed statement is the last one of the cycle on the connection
  (no batch of another kind and no later feed is attempted), the cycle-level handler logs
  the error, the connection is closed, and what was committed before stays in the trace.
\<close>

theorem batch_failure_ends_cycle:
  assumes "db_connects en"
  shows "\<exists>evs. trace (poll_cycle en feeds w) = trace w @ evs @ [Close] \<and>
           (\<forall>st. Failed st \<in> set evs \<longrightarrow>
              (\<exists>pre. evs = pre @ [Failed st] \<and> no_failed pre) \<and>
              Error_unexpected (DatabaseError (table_of st)) \<in> set (log (poll_cycle en feeds w)))"
proof -
  from poll_feeds_events[of en feeds w] obtain evs where
    t: "trace (snd (poll_feeds en feeds w)) = trace w @ evs"
    and o: "outcome (fst (poll_feeds en feeds w)) evs"
    by blast
  from t poll_cycle_trace[OF assms, of feeds w]
  have "trace (poll_cycle en feeds w) = trace w @ evs @ [Close]" by simp
  moreover have "\<forall>st. Failed st \<in> set evs \<longrightarrow>
              (\<exists>pre. evs = pre @ [Failed st] \<and> no_failed pre) \<and>
              Error_unexpected (DatabaseError (table_of st)) \<in> set (log (poll_cycle en feeds w))"
  proof (intro allI impI)
    fix st
    assume "Failed st \<in> set evs"
    from outcome_failed[OF o this]
    have "fst (poll_feeds en feeds w) = Inl (DatabaseError (table_of st))"
      and "\<exists>pre. evs = pre @ [Failed st] \<and> no_failed pre"
      by simp_all
    with poll_cycle_log[OF assms, of feeds w "DatabaseError (table_of st)"]
    show "(\<exists>pre. evs = pre @ [Failed st] \<and> no_failed pre) \<and>
              Error_unexpected (DatabaseError (table_of st)) \<in> set (log (poll_cycle en feeds w))"
      by simp
  qed
  ultimately show ?thesis by blast
qed

text \<open>
  The claim as stated fails: the entity carries all three payloads and the database
  rejects the trip-update batch; neither the vehicle-position batch nor the alert batch is
  attempted, the second feed is not polled, and the only error line is the cycle's.
\<close>

theorem batch_failure_counterexample:
  "trace (poll_cycle (env_rejecting (message_of [full_entity]) realtime_trip_updates)
            [subway_g, subway_l] world_0) =
     [Execute (InsertFeedLog 1 (snd subway_g) ''Subway-G''
                 (Some \<lparr>year = 2024, month = 1, day = 1, hour = 9, minute = 6, second = 40\<rparr>)
                 True None),
      Commit,
      Failed (InsertTripUpdates [(1, ''T1'', ''G'', ''20240101'', ''0'')]),
      Close] \<and>
   log (poll_cycle (env_rejecting (message_of [full_entity]) realtime_trip_updates)
            [subway_g, subway_l] world_0) =
     [Info_fetching_feed ''Subway-G'' (snd subway_g),
      Error_unexpected (DatabaseError realtime_trip_updates),
      Info_sleeping 120]"
  by code_simp

theorem batch_failure_ends_cycle_witness:
  "db_connects (env_rejecting (message_of [full_entity]) realtime_trip_updates) \<and>
   (\<exists>pre. trace (poll_cycle (env_rejecting (message_of [full_entity]) realtime_trip_updates)
                  [subway_g, subway_l] world_0) =
            trace world_0 @
              (pre @ [Failed (InsertTripUpdates [(1, ''T1'', ''G'', ''20240101'', ''0'')])]) @ [Close] \<and>
          no_failed pre) \<and>
   Error_unexpected (DatabaseError realtime_trip_updates)
     \<in> set (log (poll_cycle (env_rejecting (message_of [full_entity]) realtime_trip_updates)
                  [subway_g, subway_l] world_0))"
proof -
  let ?en = "env_rejecting (message_of [full_entity]) realtime_trip_updates"
  let ?st = "InsertTripUpdates [(1, ''T1'', ''G'', ''20240101'', ''0'')]"
  let ?c = "poll_cycle ?en [subway_g, subway_l] world_0"
  have h: "db_connects ?en" by (simp add: env_rejecting_def)
  have tr: "trace ?c =
     [Execute (InsertFeedLog 1 (snd subway_g) ''Subway-G''
                 (Some \<lparr>year = 2024, month = 1, day = 1, hour = 9, minute = 6, second = 40\<rparr>)
                 True None),
      Commit, Failed ?st, Close]"
    by code_simp
  from batch_failure_ends_cycle[OF h, of "[subway_g, subway_l]" world_0] obtain evs where
    e: "trace ?c = trace world_0 @ evs @ [Close]"
    and f: "\<forall>st. Failed st \<in> set evs \<longrightarrow>
              (\<exists>pre. evs = pre @ [Failed st] \<and> no_failed pre) \<and>
              Error_unexpected (DatabaseError (table_of st)) \<in> set (log ?c)"
    by blast
  from e tr have "evs = [Execute (InsertFeedLog 1 (snd subway_g) ''Subway-G''
                 (Some \<lparr>year = 2024, month = 1, day = 1, hour = 9, minute = 6, second = 40\<rparr>)
                 True None), Commit, Failed ?st]"
    by (simp add: world_0_def)
  then have "Failed ?st \<in> set evs" by simp
  with f have "(\<exists>pre. evs = pre @ [Failed ?st] \<and> no_failed pre) \<and>
              Error_unexpected (DatabaseError (table_of ?st)) \<in> set (log ?c)"
    by blast
  with e h show ?thesis by auto
qed

lemma poll_feed_log_failed:
  assumes "http_get en (snd feed) = GetRaises e \<or> http_get en (snd feed) = StatusRaises e
           \<or> http_get en (snd feed) = Content (DecodeError e)"
  shows "log (snd (poll_feed en feed w)) =
           log w @ [Info_fetching_feed (fst feed) (snd feed), Error_fetching_feed (snd feed) e]"
  using assms
  by (auto simp add: poll_feed_def fetch_gtfs_rt_feed_def log_feed_fetch_def execute_def
        logging_def commit_def Let_def)

text \<open>
  Claim C9 says that a decode failure is handled like a fetch failure except that the
  recorded error detail is decode-specific. \<^verbatim>\<open>fetch_gtfs_rt_feed\<close> returns \<^verbatim>\<open>None\<close> for both,
  and \<^verbatim>\<open>main\<close> records the one fixed text for both. As amended: a decode failure is
  handled exactly like a fetch failure, with the same result, the same statements and the
  same recorded error detail \<^verbatim>\<open>Failed to fetch or parse protobuf\<close>; the two are told apart
  only by the exception text of the error line in the process log.
\<close>

theorem decode_failure_same_detail:
  assumes "http_get en (snd feed) = Content (DecodeError e)"
    and "http_get en' (snd feed) = GetRaises e' \<or> http_get en' (snd feed) = StatusRaises e'"
    and "db_rejects en' = db_rejects en"
  shows "fst (poll_feed en feed w) = fst (poll_feed en' feed w) \<and>
         trace (snd (poll_feed en feed w)) = trace (snd (poll_feed en' feed w)) \<and>
         (\<not> db_rejects en realtime_feed_logs \<longrightarrow>
            fst (poll_feed en feed w) = Inr () \<and>
            trace (snd (poll_feed en feed w)) =
              trace w @ [Execute (InsertFeedLog (next_feed_log_id w) (snd feed) (fst feed) None False
                                    (Some ''Failed to fetch or parse protobuf'')), Commit]) \<and>
         log (snd (poll_feed en feed w)) =
           log w @ [Info_fetching_feed (fst feed) (snd feed), Error_fetching_feed (snd feed) e] \<and>
         log (snd (poll_feed en' feed w)) =
           log w @ [Info_fetching_feed (fst feed) (snd feed), Error_fetching_feed (snd feed) e']"
proof -
  from assms(1) have n: "fst (fetch_gtfs_rt_feed en (snd feed)
      (logging (Info_fetching_feed (fst feed) (snd feed)) w)) = None"
    by (simp add: fetched_None_iff)
  from assms(2) have n': "fst (fetch_gtfs_rt_feed en' (snd feed)
      (logging (Info_fetching_feed (fst feed) (snd feed)) w)) = None"
    by (auto simp add: fetched_None_iff)
  note a = poll_feed_events_failed[OF n] and b = poll_feed_events_failed[OF n']
  from a b assms(3) have "fst (poll_feed en feed w) = fst (poll_feed en' feed w)"
    and "trace (snd (poll_feed en feed w)) = trace (snd (poll_feed en' feed w))"
    by (simp_all split: if_splits)
  moreover from a have "\<not> db_rejects en realtime_feed_logs \<longrightarrow>
            fst (poll_feed en feed w) = Inr () \<and>
            trace (snd (poll_feed en feed w)) =
              trace w @ [Execute (InsertFeedLog (next_feed_log_id w) (snd feed) (fst feed) None False
                                    (Some ''Failed to fetch or parse protobuf'')), Commit]"
    by simp
  moreover from assms(1) have "log (snd (poll_feed en feed w)) =
           log w @ [Info_fetching_feed (fst feed) (snd feed), Error_fetching_feed (snd feed) e]"
    by (intro poll_feed_log_failed) simp
  moreover from assms(2) have "log (snd (poll_feed en' feed w)) =
           log w @ [Info_fetching_feed (fst feed) (snd feed), Error_fetching_feed (snd feed) e']"
    by (intro poll_feed_log_failed) auto
  ultimately show ?thesis by blast
qed

text \<open>
  The claim as stated fails: a malformed payload and a timeout leave the same attempt row,
  with the same error detail.
\<close>

theorem decode_failure_counterexample:
  "trace (snd (poll_feed env_malformed subway_g world_0)) =
     [Execute (InsertFeedLog 1 (snd subway_g) ''Subway-G'' None False
                 (Some ''Failed to fetch or parse protobuf'')), Commit] \<and>
   trace (snd (poll_feed env_timeout subway_g world_0)) =
     [Execute (InsertFeedLog 1 (snd subway_g) ''Subway-G'' None False
                 (Some ''Failed to fetch or parse protobuf'')), Commit]"
  by code_simp

theorem decode_failure_same_detail_witness:
  "http_get env_malformed (snd subway_g) = Content (DecodeError ''Error parsing message'') \<and>
   http_get env_timeout (snd subway_g) = GetRaises ''Read timed out. (read timeout=30)'' \<and>
   db_rejects env_timeout = db_rejects env_malformed \<and>
   \<not> db_rejects env_malformed realtime_feed_logs \<and>
   trace (snd (poll_feed env_malformed subway_g world_0)) =
     trace (snd (poll_feed env_timeout subway_g world_0)) \<and>
   trace (snd (poll_feed env_malformed subway_g world_0)) =
     trace world_0 @ [Execute (InsertFeedLog (next_feed_log_id world_0) (snd subway_g) (fst subway_g)
                         None False (Some ''Failed to fetch or parse protobuf'')), Commit] \<and>
   log (snd (poll_feed env_malformed subway_g world_0)) =
     log world_0 @ [Info_fetching_feed (fst subway_g) (snd subway_g),
                    Error_fetching_feed (snd subway_g) ''Error parsing message''] \<and>
   log (snd (poll_feed env_timeout subway_g world_0)) =
     log world_0 @ [Info_fetching_feed (fst subway_g) (snd subway_g),
                    Error_fetching_feed (snd subway_g) ''Read timed out. (read timeout=30)'']"
proof -
  have h1: "http_get env_malformed (snd subway_g) = Content (DecodeError ''Error parsing message'')"
    by (simp add: env_malformed_def)
  have h2: "http_get env_timeout (snd subway_g) = GetRaises ''Read timed out. (read timeout=30)''"
    by (simp add: env_timeout_def)
  have h3: "db_rejects env_timeout = db_rejects env_malformed"
    by (simp add: env_timeout_def env_malformed_def)
  have h4: "\<not> db_rejects env_malformed realtime_feed_logs"
    by (simp add: env_malformed_def)
  from decode_failure_same_detail[OF h1 disjI1[OF h2] h3, of world_0] h1 h2 h3 h4
  show ?thesis by blast
qed

section \<open>The presence tests\<close>

text \<open>
  \<^verbatim>\<open>if entity.trip_update:\<close>, \<^verbatim>\<open>if entity.vehicle:\<close>, \<^verbatim>\<open>if entity.alert:\<close> and
  \<^verbatim>\<open>... if v.position else None\<close> test the truth value of a message object, which is always
  true. So every entity of a message yields a row of each kind, built from the default
  instance where the payload is absent, and the position columns are never null.
\<close>

lemma trip_updates_data_length:
  "trip_updates_data fid es = Inr (ts, ss) \<Longrightarrow> length ts = length es"
  by (drule trip_updates_data_rows) simp

lemma vehicle_positions_data_length:
  "vehicle_positions_data fid es = Inr vs \<Longrightarrow> length vs = length es"
  by (drule vehicle_positions_data_rows) (metis length_map)

lemma alerts_data_length: "length (alerts_data fid es) = length es"
  by (simp add: alerts_data_rows)

lemma vehicle_position_row_position:
  "vehicle_position_row fid v = Inr row \<Longrightarrow>
     vp_lat row = Some (latitude (v_position v)) \<and> vp_lon row = Some (longitude (v_position v)) \<and>
     vp_bearing row = Some (bearing (v_position v)) \<and> vp_speed row = Some (speed (v_position v))"
  by (auto simp add: vehicle_position_row_def truth_message_def Let_def split: sum.splits)

lemma vehicle_position_row_timestamp:
  "vehicle_position_row fid v = Inr row \<Longrightarrow>
     ts_to_datetime (vp_timestamp v) = Inr (vp_position_timestamp row)"
  by (auto simp add: vehicle_position_row_def guarded_ts_to_datetime Let_def split: sum.splits)

text \<open>
  Claim C1 says that for a fetched and decoded message one successful attempt is recorded
  and that, per kind, as many rows are persisted as entities carry that kind's payload,
  entities carrying no payload contributing none. On the code the counts differ: for a
  message of one entity carrying only a vehicle payload and one entity carrying nothing,
  the collector records the attempt and writes two rows of every kind.
\<close>

theorem rows_for_absent_payloads:
  "carrying_trip_update [vehicle_only_entity, empty_entity] = 0 \<and>
   carrying_vehicle [vehicle_only_entity, empty_entity] = 1 \<and>
   carrying_alert [vehicle_only_entity, empty_entity] = 0 \<and>
   rows_written realtime_feed_logs
     (trace (snd (poll_feed (env_serving (message_of [vehicle_only_entity, empty_entity]))
                    subway_g world_0))) = 1 \<and>
   rows_written realtime_trip_updates
     (trace (snd (poll_feed (env_serving (message_of [vehicle_only_entity, empty_entity]))
                    subway_g world_0))) = 2 \<and>
   rows_written realtime_vehicle_positions
     (trace (snd (poll_feed (env_serving (message_of [vehicle_only_entity, empty_entity]))
                    subway_g world_0))) = 2 \<and>
   rows_written realtime_service_alerts
     (trace (snd (poll_feed (env_serving (message_of [vehicle_only_entity, empty_entity]))
                    subway_g world_0))) = 2"
  by code_simp

text \<open>
  Claim C2 says that the row of a vehicle entity has null latitude, longitude, bearing and
  speed when the entity has no position sub-message. On the code the four columns of such
  an entity hold 0.0, the values of the default position; the timestamp is converted as
  the claim says.
\<close>

theorem vehicle_row_without_position:
  "fe_vehicle vehicle_only_entity =
     Some \<lparr>vp_trip = trip_t1, vp_vehicle = \<lparr>vd_id = ''V9''\<rparr>, vp_position = None,
           vp_stop_id = ''G22'', current_status = 1, vp_timestamp = 1704100000\<rparr> \<and>
   vehicle_position_row 1 (entity_vehicle vehicle_only_entity) =
     Inr (1, ''V9'', ''T1'', ''G'', ''G22'', ''1'', Some 0, Some 0, Some 0, Some 0,
          Some \<lparr>year = 2024, month = 1, day = 1, hour = 9, minute = 6, second = 40\<rparr>)"
  by code_simp

text \<open>
  Claim C8 says that a message with no entity of a kind causes no write to that kind's
  table. On the code a message whose only entity carries an alert causes one statement on
  the trip-update table and one on the vehicle-position table; only a batch that is
  empty, as for a message without entities, is skipped.
\<close>

theorem write_for_absent_kind:
  "carrying_trip_update [alert_only_entity] = 0 \<and>
   carrying_vehicle [alert_only_entity] = 0 \<and>
   carrying_alert [alert_only_entity] = 1 \<and>
   statements_on realtime_trip_updates
     (trace (snd (poll_feed (env_serving (message_of [alert_only_entity])) subway_l world_0))) = 1 \<and>
   statements_on realtime_vehicle_positions
     (trace (snd (poll_feed (env_serving (message_of [alert_only_entity])) subway_l world_0))) = 1 \<and>
   statements_on realtime_service_alerts
     (trace (snd (poll_feed (env_serving (message_of [alert_only_entity])) subway_l world_0))) = 1"
  by code_simp

text \<open>
  The guard \<^verbatim>\<open>if ..._data:\<close> itself works: a message without entities leaves no statement
  and no log line.
\<close>

lemma no_entities_no_batches:
  "entity fm = [] \<Longrightarrow> process_feed_message en fid fm w = (Inr (), w)"
  by (simp add: process_feed_message_def)

end
